theory Spec2Isabelle
  imports Main
begin

section \<open>The change notifier: \<^verbatim>\<open>EventEmitter\<close> of \<^verbatim>\<open>src/events.ts\<close>\<close>

text \<open>
  The emitter keeps \<^verbatim>\<open>events: Map<string, Set<EventHandler>>\<close>. A handler is a
  JavaScript function; the Set compares functions by identity, so a handler is modelled
  by its identity (a natural number), and what the function does when it is called is
  given separately as a script of emitter calls (see \<open>action\<close> below).

  A JavaScript \<^verbatim>\<open>Set\<close> is an insertion-ordered list of slots (the \<^verbatim>\<open>SetData\<close>
  list of ECMAScript): \<^verbatim>\<open>add\<close> appends a value that is not yet present,
  \<^verbatim>\<open>delete\<close> replaces the value's slot by the marker \<^emph>\<open>empty\<close> (here \<open>None\<close>),
  and \<^verbatim>\<open>forEach\<close> walks the slots by index and re-reads the number of slots after
  every callback. The Set objects live in a store indexed by reference, since
  \<^verbatim>\<open>off\<close> drops the Map entry of an emptied Set and a later \<^verbatim>\<open>on\<close> creates a
  new Set object for the same event name.
\<close>

type_synonym topic = string
type_synonym handler = nat
type_synonym handler_set = "handler option list"

definition set_has :: "handler_set \<Rightarrow> handler \<Rightarrow> bool" where
  "set_has s h = (Some h \<in> set s)"

definition set_add :: "handler_set \<Rightarrow> handler \<Rightarrow> handler_set" where
  "set_add s h = (if set_has s h then s else s @ [Some h])"

definition set_delete :: "handler_set \<Rightarrow> handler \<Rightarrow> handler_set" where
  "set_delete s h = map (\<lambda>e. if e = Some h then None else e) s"

primrec set_values :: "handler_set \<Rightarrow> handler list" where
  "set_values [] = []"
| "set_values (e # s) = (case e of None \<Rightarrow> set_values s | Some h \<Rightarrow> h # set_values s)"

definition set_size :: "handler_set \<Rightarrow> nat" where
  "set_size s = length (set_values s)"

record emitter =
  events :: "topic \<Rightarrow> nat option"
  sets :: "nat \<Rightarrow> handler_set"
  next_ref :: nat

definition new_emitter :: emitter where
  "new_emitter = \<lparr>events = (\<lambda>_. None), sets = (\<lambda>_. []), next_ref = 0\<rparr>"

text \<open>\<^verbatim>\<open>on(event, handler)\<close>: create the Set when the Map has none, then add.
  The returned unsubscribe closure is \<^verbatim>\<open>() => this.off(event, handler)\<close>, that is
  \<open>off event h\<close> below.\<close>

definition on :: "topic \<Rightarrow> handler \<Rightarrow> emitter \<Rightarrow> emitter" where
  "on event h em =
     (case events em event of
        None \<Rightarrow>
          em\<lparr>events := (events em)(event := Some (next_ref em)),
             sets := (sets em)(next_ref em := set_add [] h),
             next_ref := Suc (next_ref em)\<rparr>
      | Some r \<Rightarrow> em\<lparr>sets := (sets em)(r := set_add (sets em r) h)\<rparr>)"

text \<open>\<^verbatim>\<open>off(event, handler)\<close>: delete from the Set, and drop the Map entry when the
  Set has become empty.\<close>

definition off :: "topic \<Rightarrow> handler \<Rightarrow> emitter \<Rightarrow> emitter" where
  "off event h em =
     (case events em event of
        None \<Rightarrow> em
      | Some r \<Rightarrow>
          (let s = set_delete (sets em r) h;
               em1 = em\<lparr>sets := (sets em)(r := s)\<rparr>
           in if set_size s = 0 then em1\<lparr>events := (events em1)(event := None)\<rparr> else em1))"

text \<open>\<^verbatim>\<open>removeAllListeners(event?)\<close>: the test \<^verbatim>\<open>if (event)\<close> is a truthiness
  test, so an absent argument and the empty string both clear the whole Map.\<close>

definition removeAllListeners :: "topic option \<Rightarrow> emitter \<Rightarrow> emitter" where
  "removeAllListeners ev em =
     (case ev of
        None \<Rightarrow> em\<lparr>events := (\<lambda>_. None)\<rparr>
      | Some e \<Rightarrow> if e = [] then em\<lparr>events := (\<lambda>_. None)\<rparr>
                  else em\<lparr>events := (events em)(e := None)\<rparr>)"

definition listenerCount :: "topic \<Rightarrow> emitter \<Rightarrow> nat" where
  "listenerCount event em =
     (case events em event of None \<Rightarrow> 0 | Some r \<Rightarrow> set_size (sets em r))"

text \<open>The handlers registered for an event, in registration (insertion) order.\<close>

definition listeners :: "topic \<Rightarrow> emitter \<Rightarrow> handler list" where
  "listeners event em =
     (case events em event of None \<Rightarrow> [] | Some r \<Rightarrow> set_values (sets em r))"

text \<open>
  What a handler does to the emitter while it runs: a script of calls. \<open>Throw\<close> is a
  fault raised by the handler; \<^verbatim>\<open>emit\<close> catches it, so it only ends the script.
  The wrapper that \<^verbatim>\<open>once\<close> registers is a handler whose script ends with
  \<open>Off\<close> of itself. Handlers that publish again from inside a publish are not
  covered by the scripts.
\<close>

datatype action =
    On topic handler
  | Off topic handler
  | RemoveAllListeners "topic option"
  | Throw

fun run_handler :: "action list \<Rightarrow> emitter \<Rightarrow> emitter" where
  "run_handler [] em = em"
| "run_handler (On e h # as) em = run_handler as (on e h em)"
| "run_handler (Off e h # as) em = run_handler as (off e h em)"
| "run_handler (RemoveAllListeners e # as) em = run_handler as (removeAllListeners e em)"
| "run_handler (Throw # as) em = em"

text \<open>
  \<^verbatim>\<open>handlers.forEach(handler => { try { handler(data) } catch ... })\<close> on the Set
  object with reference \<open>r\<close>: the index walks the live slot list. A handler that keeps
  adding handlers makes the loop run forever, so the loop takes fuel and returns
  \<open>None\<close> when the fuel does not suffice. The result carries the calls made, in order.
\<close>

fun forEach ::
  "nat \<Rightarrow> (handler \<Rightarrow> 'd \<Rightarrow> action list) \<Rightarrow> 'd \<Rightarrow> nat \<Rightarrow> nat \<Rightarrow> emitter \<Rightarrow>
   (handler \<times> 'd) list \<Rightarrow> (emitter \<times> (handler \<times> 'd) list) option" where
  "forEach 0 body d r i em calls =
     (if i < length (sets em r) then None else Some (em, calls))"
| "forEach (Suc fuel) body d r i em calls =
     (if i < length (sets em r) then
        (case sets em r ! i of
           None \<Rightarrow> forEach fuel body d r (Suc i) em calls
         | Some h \<Rightarrow>
             forEach fuel body d r (Suc i) (run_handler (body h d) em) (calls @ [(h, d)]))
      else Some (em, calls))"

definition emit ::
  "nat \<Rightarrow> (handler \<Rightarrow> 'd \<Rightarrow> action list) \<Rightarrow> topic \<Rightarrow> 'd \<Rightarrow> emitter \<Rightarrow>
   (emitter \<times> (handler \<times> 'd) list) option" where
  "emit fuel body event d em =
     (case events em event of
        None \<Rightarrow> Some (em, [])
      | Some r \<Rightarrow> forEach fuel body d r 0 em [])"

text \<open>
  Emitter states built by the class itself: every Set reference in the Map has been
  allocated, two event names never share a Set object, and a Set holds a value once.
\<close>

definition wf_emitter :: "emitter \<Rightarrow> bool" where
  "wf_emitter em =
     ((\<forall>e r. events em e = Some r \<longrightarrow> r < next_ref em) \<and>
      (\<forall>e e' r. events em e = Some r \<and> events em e' = Some r \<longrightarrow> e = e') \<and>
      (\<forall>r. distinct (set_values (sets em r))))"

text \<open>A script that leaves the subscriptions of one event name alone.\<close>

fun quiet_action :: "topic \<Rightarrow> action \<Rightarrow> bool" where
  "quiet_action event (On e h) = (e \<noteq> event)"
| "quiet_action event (Off e h) = (e \<noteq> event)"
| "quiet_action event (RemoveAllListeners e) = True"
| "quiet_action event Throw = True"

definition quiet :: "topic \<Rightarrow> action list \<Rightarrow> bool" where
  "quiet event as = list_all (quiet_action event) as"

section \<open>The environment of the collection engines\<close>

text \<open>
  The engines read the wall clock (\<^verbatim>\<open>new Date()\<close>, \<^verbatim>\<open>Date.now()\<close>) and
  \<^verbatim>\<open>Math.random()\<close>. Both are oracles of the world: the \<open>n\<close>-th read returns
  \<open>clock w n\<close> (milliseconds; an ISO timestamp string is determined by it) or
  \<open>random w n\<close> (the base-36 digits that \<^verbatim>\<open>toString(36).substring(...)\<close> leaves).

  JavaScript numbers that the engines compute with (prices, quantities, totals) are a
  type parameter \<open>'n\<close> of the collections. The engines add them, multiply them and
  compare them with zero, and nothing is assumed about these operations: what is proved
  holds for IEEE 754 doubles, whose addition rounds and is not associative, as it does
  for exact numbers. The concrete inputs further down take \<open>int\<close> for \<open>'n\<close>, with
  small values, on which doubles compute exactly. Identities (of products, of the owner)
  are only compared and are integers; an entry count is an integer as well.
\<close>

definition digit :: "nat \<Rightarrow> char" where
  "digit n = ''0123456789'' ! n"

function dec :: "nat \<Rightarrow> string" where
  "dec n = (if n < 10 then [digit n] else dec (n div 10) @ [digit (n mod 10)])"
  by pat_completeness auto
termination
  by (relation "measure id") auto

subsection \<open>\<^verbatim>\<open>BrowserStorage<T>\<close> (storage.ts)\<close>

text \<open>
  One \<^verbatim>\<open>localStorage\<close> key. \<open>available\<close> is \<^verbatim>\<open>isStorageAvailable()\<close>,
  \<open>writable\<close> says that \<^verbatim>\<open>setItem\<close> does not throw (quota), and \<open>item\<close> is the
  stored value after \<^verbatim>\<open>JSON.parse\<close>: \<open>None\<close> for a missing key, for text that
  does not parse, and for a falsy value, which the engines treat like a missing one
  (\<^verbatim>\<open>if (!cart)\<close>, \<^verbatim>\<open>if (!localWishlist)\<close>). Values written are plain data of
  finite numbers, which \<^verbatim>\<open>JSON.stringify\<close> and \<^verbatim>\<open>JSON.parse\<close> give back
  unchanged.
\<close>

record 'a browser_storage =
  available :: bool
  writable :: bool
  item :: "'a option"

definition storage_get :: "'a browser_storage \<Rightarrow> 'a option" where
  "storage_get st = (if \<not> available st then None else item st)"

definition storage_set :: "'a \<Rightarrow> 'a browser_storage \<Rightarrow> bool \<times> 'a browser_storage" where
  "storage_set v st =
     (if \<not> available st then (False, st)
      else if writable st then (True, st\<lparr>item := Some v\<rparr>)
      else (False, st))"

definition storage_remove :: "'a browser_storage \<Rightarrow> bool \<times> 'a browser_storage" where
  "storage_remove st =
     (if \<not> available st then (False, st) else (True, st\<lparr>item := None\<rparr>))"

subsection \<open>Collections\<close>

record 'n product =
  product_id :: int
  product_title :: string
  product_price :: 'n

record 'n cart_item =
  item_id :: string
  product :: "'n product"
  quantity :: 'n
  price :: 'n

record 'n cart =
  cart_id :: string
  items :: "'n cart_item list"
  subtotal :: 'n
  total_items :: 'n
  created_at :: nat
  updated_at :: nat

record 'n wishlist_item =
  wl_item_id :: string
  wl_product :: "'n product"
  added_at :: nat

record 'n wishlist =
  wl_items :: "'n wishlist_item list"
  wl_total_items :: int
  wl_updated_at :: nat

text \<open>
  What the wishlist engine reads, from the backend and from its \<^verbatim>\<open>localStorage\<close>
  key, is cast to \<^verbatim>\<open>Wishlist\<close> and never validated. \<open>Snapshot l\<close> is a value of the
  wishlist's shape (its aggregates may be anything). \<open>Malformed v\<close> is a truthy JSON
  value, of text \<open>v\<close>, whose \<^verbatim>\<open>items\<close> is not an array (an object without the
  property, a string, a number): it can be returned and stored like any value, and
  every array method on its \<^verbatim>\<open>items\<close> (\<^verbatim>\<open>some\<close>, \<^verbatim>\<open>find\<close>,
  \<^verbatim>\<open>filter\<close>, \<^verbatim>\<open>push\<close>, \<^verbatim>\<open>sort\<close>) throws a \<^verbatim>\<open>TypeError\<close>. The elements of
  an \<^verbatim>\<open>items\<close> array are taken to have the shape of entries, and the cart's key is
  taken to hold a value of the cart's shape.
\<close>

datatype 'n payload = Snapshot "'n wishlist" | Malformed string

datatype error = TypeError

text \<open>The payloads of \<^verbatim>\<open>eventEmitter.emit\<close>, one constructor per event name. The
  world records the publishes of the engines in \<open>emitted\<close>, in order; the subscribed
  handlers run outside the engines and are taken to leave the payload as it is.\<close>

datatype 'n event =
    CartItemAdded "'n cart_item" "'n cart"
  | CartItemUpdated "'n cart_item" "'n cart"
  | CartItemRemoved string "'n cart"
  | CartCleared "'n cart"
  | WishlistItemAdded "'n wishlist_item" "'n wishlist"
  | WishlistItemRemoved string "'n wishlist"
  | WishlistCleared "'n wishlist"

fun topic_of :: "'n event \<Rightarrow> topic" where
  "topic_of (CartItemAdded i c) = ''cart:item:added''"
| "topic_of (CartItemUpdated i c) = ''cart:item:updated''"
| "topic_of (CartItemRemoved i c) = ''cart:item:removed''"
| "topic_of (CartCleared c) = ''cart:cleared''"
| "topic_of (WishlistItemAdded i l) = ''wishlist:item:added''"
| "topic_of (WishlistItemRemoved i l) = ''wishlist:item:removed''"
| "topic_of (WishlistCleared l) = ''wishlist:cleared''"

text \<open>
  The remote collection backend is \<^verbatim>\<open>this.generic\<close>, an external capability. Its
  answer to the \<open>n\<close>-th \<^verbatim>\<open>generic.get('/generis', {key, kind, limit: 1})\<close> is an
  oracle of the world: the call throws (\<open>Throws\<close>), or it returns a response without a
  usable record (\<open>NoRecord\<close>: \<^verbatim>\<open>state\<close> not \<^verbatim>\<open>'ok'\<close>, no \<^verbatim>\<open>result\<close>, empty
  \<^verbatim>\<open>data\<close>, or a record whose \<^verbatim>\<open>data\<close> is falsy and so fails the test
  \<^verbatim>\<open>if (remoteWishlist)\<close> of the callers), or it returns a record with truthy
  \<^verbatim>\<open>data\<close> (\<open>Found\<close>), which is handed on as it is. The key of a request is
  \<^verbatim>\<open>wishlist_\<close> followed by the owner identity; a logged request keeps the identity.
  What a \<^verbatim>\<open>generic.post\<close> answers is ignored by the engine, so the world only logs
  the requests made.
\<close>

datatype 'n remote_reply = Throws | NoRecord | Found "'n payload"

record 'n remote_post =
  post_owner :: int
  post_kind :: int
  post_data :: "'n payload"

text \<open>
  The world of one SDK instance: the two oracles and how often each has been read, the
  \<^verbatim>\<open>localStorage\<close> keys of the cart and of the wishlist, the owner identity
  (\<^verbatim>\<open>this.userId\<close> of the wishlist engine; the cart engine has no such field), the
  backend's answers with the number of remote reads issued and the log of remote writes
  requested, and the events published.
\<close>

record 'n world =
  clock :: "nat \<Rightarrow> nat"
  clock_reads :: nat
  random :: "nat \<Rightarrow> string"
  random_reads :: nat
  cart_storage :: "'n cart browser_storage"
  wishlist_storage :: "'n payload browser_storage"
  userId :: "int option"
  remote_get :: "nat \<Rightarrow> 'n remote_reply"
  remote_gets :: nat
  remote_posts :: "'n remote_post list"
  emitted :: "'n event list"

definition date_now :: "'n world \<Rightarrow> nat \<times> 'n world" where
  "date_now w = (clock w (clock_reads w), w\<lparr>clock_reads := Suc (clock_reads w)\<rparr>)"

definition math_random :: "'n world \<Rightarrow> string \<times> 'n world" where
  "math_random w = (random w (random_reads w), w\<lparr>random_reads := Suc (random_reads w)\<rparr>)"

definition emit_event :: "'n event \<Rightarrow> 'n world \<Rightarrow> 'n world" where
  "emit_event ev w = w\<lparr>emitted := emitted w @ [ev]\<rparr>"

fun findIndex :: "('a \<Rightarrow> bool) \<Rightarrow> 'a list \<Rightarrow> nat option" where
  "findIndex P [] = None"
| "findIndex P (x # xs) = (if P x then Some 0 else map_option Suc (findIndex P xs))"

section \<open>The cart engine: \<^verbatim>\<open>CartResource\<close>\<close>

text \<open>
  The local, synchronous part of the class. Its remote methods (\<^verbatim>\<open>syncToRemote\<close>,
  \<^verbatim>\<open>loadFromRemote\<close> and the \<^verbatim>\<open>...RemoteCart\<close> family) are separate calls of
  the HTTP client that none of the methods below invokes. \<^verbatim>\<open>loadFromRemote\<close> writes
  a cart to the local store whose \<^verbatim>\<open>subtotal\<close> and \<^verbatim>\<open>total_items\<close> are the
  backend's, not recomputed: the stored cart that the methods below start from is any
  value of the cart's shape.
\<close>

definition generateCartId :: "'n world \<Rightarrow> string \<times> 'n world" where
  "generateCartId w =
     (let (t, w1) = date_now w; (s, w2) = math_random w1
      in (''cart_'' @ dec t @ ''_'' @ s, w2))"

definition generateItemId :: "'n world \<Rightarrow> string \<times> 'n world" where
  "generateItemId w =
     (let (t, w1) = date_now w; (s, w2) = math_random w1
      in (''item_'' @ dec t @ ''_'' @ s, w2))"

definition createEmptyCart :: "'n::zero world \<Rightarrow> 'n cart \<times> 'n world" where
  "createEmptyCart w =
     (let (i, w1) = generateCartId w; (c, w2) = date_now w1; (u, w3) = date_now w2
      in (\<lparr>cart_id = i, items = [], subtotal = 0, total_items = 0,
           created_at = c, updated_at = u\<rparr>, w3))"

text \<open>\<^verbatim>\<open>reduce\<close> folds from the left, starting from \<open>0\<close>.\<close>

definition updateCartTotals ::
  "'n::{plus,times,zero} cart \<Rightarrow> 'n world \<Rightarrow> 'n cart \<times> 'n world" where
  "updateCartTotals c w =
     (let s = foldl (\<lambda>total i. total + price i * quantity i) 0 (items c);
          n = foldl (\<lambda>total i. total + quantity i) 0 (items c);
          (t, w1) = date_now w
      in (c\<lparr>subtotal := s, total_items := n, updated_at := t\<rparr>, w1))"

definition cart_storage_set :: "'n cart \<Rightarrow> 'n world \<Rightarrow> 'n world" where
  "cart_storage_set c w = w\<lparr>cart_storage := snd (storage_set c (cart_storage w))\<rparr>"

definition cart_get :: "'n::zero world \<Rightarrow> 'n cart \<times> 'n world" where
  "cart_get w =
     (case storage_get (cart_storage w) of
        None \<Rightarrow> createEmptyCart w
      | Some c \<Rightarrow> (c, w))"

text \<open>\<^verbatim>\<open>addItem(product, quantity = 1)\<close>; the default is the caller passing \<open>1\<close>.\<close>

definition cart_addItem ::
  "'n::{plus,times,zero} product \<Rightarrow> 'n \<Rightarrow> 'n world \<Rightarrow> 'n cart \<times> 'n world" where
  "cart_addItem p q w =
     (let (c, w1) = cart_get w in
      case findIndex (\<lambda>i. product_id (product i) = product_id p) (items c) of
        Some k \<Rightarrow>
          (let old = items c ! k;
               c1 = c\<lparr>items := (items c)[k := old\<lparr>quantity := quantity old + q,
                                                     price := product_price p\<rparr>]\<rparr>;
               (c2, w2) = updateCartTotals c1 w1;
               w3 = cart_storage_set c2 w2
           in (c2, emit_event (CartItemAdded (items c2 ! k) c2) w3))
      | None \<Rightarrow>
          (let (i, w2) = generateItemId w1;
               c1 = c\<lparr>items := items c @
                      [\<lparr>item_id = i, product = p, quantity = q, price = product_price p\<rparr>]\<rparr>;
               (c2, w3) = updateCartTotals c1 w2;
               w4 = cart_storage_set c2 w3
           in (c2, emit_event (CartItemAdded (items c2 ! (length (items c2) - 1)) c2) w4)))"

definition cart_removeItem ::
  "string \<Rightarrow> 'n::{plus,times,zero} world \<Rightarrow> 'n cart \<times> 'n world" where
  "cart_removeItem itemId w =
     (let (c, w1) = cart_get w in
      case find (\<lambda>i. item_id i = itemId) (items c) of
        Some itemToRemove \<Rightarrow>
          (let c1 = c\<lparr>items := filter (\<lambda>i. item_id i \<noteq> itemId) (items c)\<rparr>;
               (c2, w2) = updateCartTotals c1 w1;
               w3 = cart_storage_set c2 w2
           in (c2, emit_event (CartItemRemoved itemId c2) w3))
      | None \<Rightarrow> (c, w1))"

definition cart_removeProduct ::
  "int \<Rightarrow> 'n::{plus,times,zero} world \<Rightarrow> 'n cart \<times> 'n world" where
  "cart_removeProduct productId w =
     (let (c, w1) = cart_get w in
      case find (\<lambda>i. product_id (product i) = productId) (items c) of
        Some itemToRemove \<Rightarrow> cart_removeItem (item_id itemToRemove) w1
      | None \<Rightarrow> (c, w1))"

definition cart_updateItemQuantity ::
  "string \<Rightarrow> 'n::{plus,times,zero,ord} \<Rightarrow> 'n world \<Rightarrow> 'n cart \<times> 'n world" where
  "cart_updateItemQuantity itemId q w =
     (if q \<le> 0 then cart_removeItem itemId w
      else
        (let (c, w1) = cart_get w in
         case findIndex (\<lambda>i. item_id i = itemId) (items c) of
           Some k \<Rightarrow>
             (let c1 = c\<lparr>items := (items c)[k := (items c ! k)\<lparr>quantity := q\<rparr>]\<rparr>;
                  (c2, w2) = updateCartTotals c1 w1;
                  w3 = cart_storage_set c2 w2
              in (c2, emit_event (CartItemUpdated (items c2 ! k) c2) w3))
         | None \<Rightarrow> (c, w1)))"

definition cart_clear :: "'n::zero world \<Rightarrow> 'n cart \<times> 'n world" where
  "cart_clear w =
     (let (c, w1) = createEmptyCart w;
          w2 = cart_storage_set c w1
      in (c, emit_event (CartCleared c) w2))"


section \<open>The wishlist engine: \<^verbatim>\<open>WishlistResource\<close> of \<^verbatim>\<open>src/resources/wishlist.ts\<close>\<close>

text \<open>
  The methods are \<^verbatim>\<open>async\<close>; each is modelled as running to its end without another
  call of the same engine interleaving at an \<^verbatim>\<open>await\<close>. A method that throws
  rejects its promise: it returns \<open>Inl\<close> of the error, and the world is as the steps
  before the throw left it.

  \<^verbatim>\<open>if (!this.userId)\<close> is a truthiness test on an optional number: it holds for an
  absent identity and for the identity \<open>0\<close>.
\<close>

definition userId_truthy :: "'n world \<Rightarrow> bool" where
  "userId_truthy w = (case userId w of None \<Rightarrow> False | Some u \<Rightarrow> u \<noteq> 0)"

definition setUserId :: "int \<Rightarrow> 'n world \<Rightarrow> 'n world" where
  "setUserId u w = w\<lparr>userId := Some u\<rparr>"

definition wishlistKind :: int where
  "wishlistKind = 2"

definition getRemoteWishlist :: "'n world \<Rightarrow> 'n payload option \<times> 'n world" where
  "getRemoteWishlist w =
     (if \<not> userId_truthy w then (None, w)
      else
        (let reply = remote_get w (remote_gets w);
             w1 = w\<lparr>remote_gets := Suc (remote_gets w)\<rparr>
         in case reply of
              Found data \<Rightarrow> (Some data, w1)
            | NoRecord \<Rightarrow> (None, w1)
            | Throws \<Rightarrow> (None, w1)))"

definition saveToRemote :: "'n payload \<Rightarrow> 'n world \<Rightarrow> 'n world" where
  "saveToRemote wishlist w =
     (if \<not> userId_truthy w then w
      else
        (case userId w of
           None \<Rightarrow> w
         | Some u \<Rightarrow>
             w\<lparr>remote_posts := remote_posts w @
                 [\<lparr>post_owner = u, post_kind = wishlistKind, post_data = wishlist\<rparr>]\<rparr>))"

definition wishlist_storage_set :: "'n payload \<Rightarrow> 'n world \<Rightarrow> 'n world" where
  "wishlist_storage_set wishlist w =
     w\<lparr>wishlist_storage := snd (storage_set wishlist (wishlist_storage w))\<rparr>"

definition createEmptyWishlist :: "'n world \<Rightarrow> 'n wishlist \<times> 'n world" where
  "createEmptyWishlist w =
     (let (t, w1) = date_now w
      in (\<lparr>wl_items = [], wl_total_items = 0, wl_updated_at = t\<rparr>, w1))"

definition updateWishlistMeta :: "'n wishlist \<Rightarrow> 'n world \<Rightarrow> 'n wishlist \<times> 'n world" where
  "updateWishlistMeta l w =
     (let (t, w1) = date_now w
      in (l\<lparr>wl_total_items := int (length (wl_items l)), wl_updated_at := t\<rparr>, w1))"

definition wl_generateItemId :: "'n world \<Rightarrow> string \<times> 'n world" where
  "wl_generateItemId w =
     (let (t, w1) = date_now w; (s, w2) = math_random w1
      in (''wishlist_'' @ dec t @ ''_'' @ s, w2))"

text \<open>\<^verbatim>\<open>get()\<close> never throws: \<^verbatim>\<open>getRemoteWishlist\<close> and \<^verbatim>\<open>storage.set\<close>
  catch what their calls throw.\<close>

definition wl_get :: "'n world \<Rightarrow> 'n payload \<times> 'n world" where
  "wl_get w =
     (let (r, w1) = getRemoteWishlist w in
      case r of
        Some remoteWishlist \<Rightarrow> (remoteWishlist, wishlist_storage_set remoteWishlist w1)
      | None \<Rightarrow>
          (case storage_get (wishlist_storage w1) of
             None \<Rightarrow> (let (l, w2) = createEmptyWishlist w1 in (Snapshot l, w2))
           | Some localWishlist \<Rightarrow> (localWishlist, w1)))"

definition wl_getLocal :: "'n world \<Rightarrow> 'n payload \<times> 'n world" where
  "wl_getLocal w =
     (case storage_get (wishlist_storage w) of
        None \<Rightarrow> (let (l, w1) = createEmptyWishlist w in (Snapshot l, w1))
      | Some wishlist \<Rightarrow> (wishlist, w))"

definition has_product :: "int \<Rightarrow> 'n wishlist \<Rightarrow> bool" where
  "has_product productId l = list_ex (\<lambda>i. product_id (wl_product i) = productId) (wl_items l)"

definition wl_hasProduct :: "int \<Rightarrow> 'n world \<Rightarrow> (error + bool) \<times> 'n world" where
  "wl_hasProduct productId w =
     (let (wishlist, w1) = wl_get w in
      case wishlist of
        Malformed v \<Rightarrow> (Inl TypeError, w1)
      | Snapshot l \<Rightarrow> (Inr (has_product productId l), w1))"

definition wl_hasProductLocal :: "int \<Rightarrow> 'n world \<Rightarrow> (error + bool) \<times> 'n world" where
  "wl_hasProductLocal productId w =
     (let (wishlist, w1) = wl_getLocal w in
      case wishlist of
        Malformed v \<Rightarrow> (Inl TypeError, w1)
      | Snapshot l \<Rightarrow> (Inr (has_product productId l), w1))"

text \<open>\<^verbatim>\<open>addItem\<close> returns what its own \<^verbatim>\<open>get()\<close> read when \<^verbatim>\<open>hasProduct\<close>,
  which reads again, says that the product is there. Otherwise the identifier and the
  time of the new entry are taken before \<^verbatim>\<open>wishlist.items.push\<close> is reached.\<close>

definition wl_addItem :: "'n product \<Rightarrow> 'n world \<Rightarrow> (error + 'n payload) \<times> 'n world" where
  "wl_addItem p w =
     (let (wishlist, w1) = wl_get w;
          (has, w2) = wl_hasProduct (product_id p) w1
      in case has of
           Inl e \<Rightarrow> (Inl e, w2)
         | Inr exists \<Rightarrow>
             if exists then (Inr wishlist, w2)
             else
               (let (i, w3) = wl_generateItemId w2;
                    (t, w4) = date_now w3;
                    newItem = \<lparr>wl_item_id = i, wl_product = p, added_at = t\<rparr>
                in case wishlist of
                     Malformed v \<Rightarrow> (Inl TypeError, w4)
                   | Snapshot l \<Rightarrow>
                       (let l1 = l\<lparr>wl_items := wl_items l @ [newItem]\<rparr>;
                            (l2, w5) = updateWishlistMeta l1 w4;
                            w6 = wishlist_storage_set (Snapshot l2) w5;
                            w7 = saveToRemote (Snapshot l2) w6
                        in (Inr (Snapshot l2), emit_event (WishlistItemAdded newItem l2) w7))))"

definition wl_removeItem :: "string \<Rightarrow> 'n world \<Rightarrow> (error + 'n payload) \<times> 'n world" where
  "wl_removeItem itemId w =
     (let (wishlist, w1) = wl_get w in
      case wishlist of
        Malformed v \<Rightarrow> (Inl TypeError, w1)
      | Snapshot l \<Rightarrow>
          (let l1 = l\<lparr>wl_items := filter (\<lambda>i. wl_item_id i \<noteq> itemId) (wl_items l)\<rparr>;
               (l2, w2) = updateWishlistMeta l1 w1;
               w3 = wishlist_storage_set (Snapshot l2) w2;
               w4 = saveToRemote (Snapshot l2) w3
           in (Inr (Snapshot l2), emit_event (WishlistItemRemoved itemId l2) w4)))"

definition wl_removeProduct :: "int \<Rightarrow> 'n world \<Rightarrow> (error + 'n payload) \<times> 'n world" where
  "wl_removeProduct productId w =
     (let (wishlist, w1) = wl_get w in
      case wishlist of
        Malformed v \<Rightarrow> (Inl TypeError, w1)
      | Snapshot l \<Rightarrow>
          (case find (\<lambda>i. product_id (wl_product i) = productId) (wl_items l) of
             Some itemToRemove \<Rightarrow> wl_removeItem (wl_item_id itemToRemove) w1
           | None \<Rightarrow> (Inr wishlist, w1)))"

definition wl_toggleProduct ::
  "'n product \<Rightarrow> 'n world \<Rightarrow> (error + 'n payload \<times> bool) \<times> 'n world" where
  "wl_toggleProduct p w =
     (let (has, w1) = wl_hasProduct (product_id p) w in
      case has of
        Inl e \<Rightarrow> (Inl e, w1)
      | Inr exists \<Rightarrow>
          if exists then
            (let (r, w2) = wl_removeProduct (product_id p) w1
             in (case r of Inl e \<Rightarrow> Inl e | Inr wishlist \<Rightarrow> Inr (wishlist, False), w2))
          else
            (let (r, w2) = wl_addItem p w1
             in (case r of Inl e \<Rightarrow> Inl e | Inr wishlist \<Rightarrow> Inr (wishlist, True), w2)))"

definition wl_clear :: "'n world \<Rightarrow> 'n wishlist \<times> 'n world" where
  "wl_clear w =
     (let (l, w1) = createEmptyWishlist w;
          w2 = wishlist_storage_set (Snapshot l) w1;
          w3 = saveToRemote (Snapshot l) w2
      in (l, emit_event (WishlistCleared l) w3))"

text \<open>
  \<^verbatim>\<open>sort(compareFn?)\<close>. What \<^verbatim>\<open>wishlist.items.sort(...)\<close> leaves in the array, for
  the comparator of the call (the one passed in, or the default, newest first), is the
  parameter \<open>reorder\<close>: for a comparator that is not a consistent ordering the order is
  up to the host. The comparator is taken to return. \<^verbatim>\<open>sortByName\<close>,
  \<^verbatim>\<open>sortByPrice\<close> and \<^verbatim>\<open>sortByDateAdded\<close> are calls of \<^verbatim>\<open>sort\<close> with a
  comparator of their own, hence \<open>wl_sort reorder\<close> for some \<open>reorder\<close>.
\<close>

definition wl_sort ::
  "('n wishlist_item list \<Rightarrow> 'n wishlist_item list) \<Rightarrow> 'n world \<Rightarrow>
     (error + 'n payload) \<times> 'n world" where
  "wl_sort reorder w =
     (let (wishlist, w1) = wl_get w in
      case wishlist of
        Malformed v \<Rightarrow> (Inl TypeError, w1)
      | Snapshot l \<Rightarrow>
          (let l1 = l\<lparr>wl_items := reorder (wl_items l)\<rparr>;
               (l2, w2) = updateWishlistMeta l1 w1;
               w3 = wishlist_storage_set (Snapshot l2) w2;
               w4 = saveToRemote (Snapshot l2) w3
           in (Inr (Snapshot l2), w4)))"

definition wl_syncFromRemote :: "'n world \<Rightarrow> 'n payload \<times> 'n world" where
  "wl_syncFromRemote w =
     (let (r, w1) = getRemoteWishlist w in
      case r of
        Some remoteWishlist \<Rightarrow> (remoteWishlist, wishlist_storage_set remoteWishlist w1)
      | None \<Rightarrow> wl_getLocal w1)"

definition wl_syncToRemote :: "'n world \<Rightarrow> 'n world" where
  "wl_syncToRemote w = (let (wishlist, w1) = wl_getLocal w in saveToRemote wishlist w1)"


section \<open>Mutation sequences and the aggregates as functions of the entries\<close>

datatype 'n mutation =
    CartAddItem "'n product" 'n
  | CartRemoveItem string
  | CartUpdateItemQuantity string 'n
  | CartClear
  | WishlistAddItem "'n product"
  | WishlistRemoveItem string
  | WishlistClear

datatype 'n collection = Cart "'n cart" | Wishlist "'n payload"

fun apply_mutation ::
  "'n::{plus,times,zero,ord} mutation \<Rightarrow> 'n world \<Rightarrow> (error + 'n collection) \<times> 'n world" where
  "apply_mutation (CartAddItem p q) w =
     (let (c, w1) = cart_addItem p q w in (Inr (Cart c), w1))"
| "apply_mutation (CartRemoveItem i) w =
     (let (c, w1) = cart_removeItem i w in (Inr (Cart c), w1))"
| "apply_mutation (CartUpdateItemQuantity i q) w =
     (let (c, w1) = cart_updateItemQuantity i q w in (Inr (Cart c), w1))"
| "apply_mutation CartClear w = (let (c, w1) = cart_clear w in (Inr (Cart c), w1))"
| "apply_mutation (WishlistAddItem p) w =
     (let (r, w1) = wl_addItem p w
      in (case r of Inl e \<Rightarrow> Inl e | Inr wishlist \<Rightarrow> Inr (Wishlist wishlist), w1))"
| "apply_mutation (WishlistRemoveItem i) w =
     (let (r, w1) = wl_removeItem i w
      in (case r of Inl e \<Rightarrow> Inl e | Inr wishlist \<Rightarrow> Inr (Wishlist wishlist), w1))"
| "apply_mutation WishlistClear w =
     (let (l, w1) = wl_clear w in (Inr (Wishlist (Snapshot l)), w1))"

text \<open>A sequence of mutation calls; the result lists what each call returned.\<close>

fun run ::
  "'n::{plus,times,zero,ord} mutation list \<Rightarrow> 'n world \<Rightarrow>
     (error + 'n collection) list \<times> 'n world" where
  "run [] w = ([], w)"
| "run (m # ms) w =
     (let (c, w1) = apply_mutation m w; (cs, w2) = run ms w1 in (c # cs, w2))"

text \<open>
  The aggregates in the words of the specification: the count is the sum of the
  quantities and the total is the sum of price times quantity (cart); the count is the
  number of entries (wishlist). A sum is taken over the entries in their order, from
  zero, in the arithmetic of the numbers; for exact numbers it is \<^const>\<open>sum_list\<close>.
\<close>

definition entry_sum :: "'n::{plus,zero} list \<Rightarrow> 'n" where
  "entry_sum xs = foldl (+) 0 xs"

definition cart_pure :: "'n::{plus,times,zero} cart \<Rightarrow> bool" where
  "cart_pure c =
     (total_items c = entry_sum (map quantity (items c)) \<and>
      subtotal c = entry_sum (map (\<lambda>i. price i * quantity i) (items c)))"

definition wishlist_pure :: "'n wishlist \<Rightarrow> bool" where
  "wishlist_pure l = (wl_total_items l = int (length (wl_items l)))"

fun payload_pure :: "'n payload \<Rightarrow> bool" where
  "payload_pure (Snapshot l) = wishlist_pure l"
| "payload_pure (Malformed v) = False"

fun aggregates_pure :: "'n::{plus,times,zero} collection \<Rightarrow> bool" where
  "aggregates_pure (Cart c) = cart_pure c"
| "aggregates_pure (Wishlist wishlist) = payload_pure wishlist"

text \<open>The call returned a collection, and its aggregates are pure.\<close>

fun returns_pure :: "error + 'n::{plus,times,zero} collection \<Rightarrow> bool" where
  "returns_pure (Inr c) = aggregates_pure c"
| "returns_pure (Inl e) = False"

text \<open>
  Snapshots that exist before the first call: what the local stores hold, and what the
  remote backend may answer. They are pure when they have the shape of a collection and
  their aggregates are pure; an empty local store and a backend without records are.
\<close>

definition snapshots_pure :: "'n::{plus,times,zero} world \<Rightarrow> bool" where
  "snapshots_pure w =
     ((\<forall>c. item (cart_storage w) = Some c \<longrightarrow> cart_pure c) \<and>
      (\<forall>r. item (wishlist_storage w) = Some r \<longrightarrow> payload_pure r) \<and>
      (\<forall>n r. remote_get w n = Found r \<longrightarrow> payload_pure r))"


section \<open>Auxiliary notions and the concrete inputs used below\<close>

text \<open>While \<^verbatim>\<open>forEach\<close> walks the Set object \<open>r\<close> of \<open>event\<close>: the object is
  allocated, no other event name refers to it, and \<open>event\<close> refers to it or to no Set.\<close>

definition iterating :: "topic \<Rightarrow> nat \<Rightarrow> emitter \<Rightarrow> bool" where
  "iterating event r em =
     (r < next_ref em \<and> (\<forall>e. events em e = Some r \<longrightarrow> e = event) \<and>
      (\<forall>e r'. events em e = Some r' \<longrightarrow> r' < next_ref em) \<and>
      (events em event = None \<or> events em event = Some r))"

text \<open>The number of slots of the event's Set, the empty ones included: the fuel that
  \<^verbatim>\<open>forEach\<close> needs when the Set does not grow.\<close>

definition slot_count :: "topic \<Rightarrow> emitter \<Rightarrow> nat" where
  "slot_count event em = (case events em event of None \<Rightarrow> 0 | Some r \<Rightarrow> length (sets em r))"

text \<open>The handlers registered for the event after \<open>h\<close>: those whose turn in a publish
  comes after the turn of \<open>h\<close>.\<close>

definition later_handlers :: "topic \<Rightarrow> emitter \<Rightarrow> handler \<Rightarrow> handler list" where
  "later_handlers event em h = tl (dropWhile (\<lambda>g. g \<noteq> h) (listeners event em))"

text \<open>A script that subscribes nobody to the event and unsubscribes from it none of the
  handlers \<open>later\<close>. It may unsubscribe its own handler (as the wrapper of
  \<^verbatim>\<open>once\<close> does) and handlers whose turn is over.\<close>

fun polite_action :: "topic \<Rightarrow> handler list \<Rightarrow> action \<Rightarrow> bool" where
  "polite_action event later (On e h) = (e \<noteq> event)"
| "polite_action event later (Off e g) = (e \<noteq> event \<or> g \<notin> set later)"
| "polite_action event later (RemoveAllListeners e) = True"
| "polite_action event later Throw = True"

definition polite :: "topic \<Rightarrow> handler list \<Rightarrow> action list \<Rightarrow> bool" where
  "polite event later as = list_all (polite_action event later) as"

text \<open>
  No handler that \<^verbatim>\<open>forEach\<close> calls from slot \<open>i\<close> on changes, while it runs, the
  slots of the Set object \<open>r\<close> behind its own: the part of the Set that the loop has
  still to visit. \<open>calm\<close> says this of a publish of \<open>event\<close>.
\<close>

fun undisturbed ::
  "nat \<Rightarrow> (handler \<Rightarrow> 'd \<Rightarrow> action list) \<Rightarrow> 'd \<Rightarrow> nat \<Rightarrow> nat \<Rightarrow> emitter \<Rightarrow> bool" where
  "undisturbed 0 body d r i em = True"
| "undisturbed (Suc fuel) body d r i em =
     (if i < length (sets em r) then
        (case sets em r ! i of
           None \<Rightarrow> undisturbed fuel body d r (Suc i) em
         | Some h \<Rightarrow>
             drop (Suc i) (sets (run_handler (body h d) em) r) = drop (Suc i) (sets em r) \<and>
             undisturbed fuel body d r (Suc i) (run_handler (body h d) em))
      else True)"

definition calm ::
  "nat \<Rightarrow> (handler \<Rightarrow> 'd \<Rightarrow> action list) \<Rightarrow> topic \<Rightarrow> 'd \<Rightarrow> emitter \<Rightarrow> bool" where
  "calm fuel body event d em =
     (case events em event of None \<Rightarrow> True | Some r \<Rightarrow> undisturbed fuel body d r 0 em)"

text \<open>Handler \<open>1\<close> subscribes handler \<open>2\<close> to the event it is handling; all others
  do nothing.\<close>

definition late_subscriber :: "handler \<Rightarrow> unit \<Rightarrow> action list" where
  "late_subscriber h d = (if h = 1 then [On ''cart:cleared'' 2] else [])"

text \<open>Handler \<open>1\<close> unsubscribes handler \<open>2\<close>, whose turn has not come yet.\<close>

definition early_unsubscriber :: "handler \<Rightarrow> unit \<Rightarrow> action list" where
  "early_unsubscriber h d = (if h = 1 then [Off ''cart:cleared'' 2] else [])"

text \<open>Handler \<open>1\<close> is a \<^verbatim>\<open>once\<close> wrapper: it unsubscribes itself. Handler \<open>2\<close>
  unsubscribes handler \<open>1\<close> again, subscribes handler \<open>3\<close> to another event and then
  fails.\<close>

definition once_like :: "handler \<Rightarrow> unit \<Rightarrow> action list" where
  "once_like h d =
     (if h = 1 then [Off ''cart:cleared'' 1]
      else if h = 2 then [Off ''cart:cleared'' 1, On ''cart:item:added'' 3, Throw]
      else [])"

text \<open>Handlers that only look at the payload.\<close>

definition observers :: "handler \<Rightarrow> unit \<Rightarrow> action list" where
  "observers h d = []"

text \<open>The entry that the cart's \<^verbatim>\<open>addItem\<close> puts into its event: the merged entry
  when the cart held the product (\<open>before\<close> are the entries read), the last entry
  otherwise.\<close>

definition added_entry :: "'n product \<Rightarrow> 'n cart_item list \<Rightarrow> 'n cart \<Rightarrow> 'n cart_item" where
  "added_entry p before c =
     (case findIndex (\<lambda>i. product_id (product i) = product_id p) before of
        Some k \<Rightarrow> items c ! k
      | None \<Rightarrow> items c ! (length (items c) - 1))"

text \<open>The entry that \<^verbatim>\<open>updateItemQuantity\<close> puts into its event.\<close>

definition updated_entry :: "string \<Rightarrow> 'n cart_item list \<Rightarrow> 'n cart \<Rightarrow> 'n cart_item" where
  "updated_entry itemId before c =
     (case findIndex (\<lambda>i. item_id i = itemId) before of
        Some k \<Rightarrow> items c ! k
      | None \<Rightarrow> items c ! 0)"

text \<open>The wishlist's local store can be read and accepts writes.\<close>

definition local_usable :: "'n world \<Rightarrow> bool" where
  "local_usable w = (available (wishlist_storage w) \<and> writable (wishlist_storage w))"

text \<open>No remote read of the wishlist finds a record: the engine issues none, or the
  backend never answers with one.\<close>

definition remote_silent :: "'n world \<Rightarrow> bool" where
  "remote_silent w = (userId_truthy w \<longrightarrow> (\<forall>n r. remote_get w n \<noteq> Found r))"

text \<open>How many entries hold the product identity of \<open>p\<close>.\<close>

definition occurrences :: "'n product \<Rightarrow> 'n wishlist_item list \<Rightarrow> nat" where
  "occurrences p xs = length (filter (\<lambda>i. product_id (wl_product i) = product_id p) xs)"

text \<open>What three \<^verbatim>\<open>get()\<close> calls in a row return. \<^verbatim>\<open>toggleProduct\<close> reads the
  collection that often: through \<^verbatim>\<open>hasProduct\<close>, then through
  \<^verbatim>\<open>removeProduct\<close> and \<^verbatim>\<open>removeItem\<close>, or through \<^verbatim>\<open>addItem\<close> and its
  \<^verbatim>\<open>hasProduct\<close>.\<close>

definition three_reads :: "'n world \<Rightarrow> 'n payload list" where
  "three_reads w =
     (let (a, w1) = wl_get w; (b, w2) = wl_get w1; (c, w3) = wl_get w2 in [a, b, c])"

text \<open>The next three reads all see a wishlist with the entries \<open>xs\<close>: the backend's
  record, for a signed-in shopper whose backend answers, and the local value otherwise.\<close>

fun holds :: "'n wishlist_item list \<Rightarrow> 'n payload \<Rightarrow> bool" where
  "holds xs (Snapshot l) = (wl_items l = xs)"
| "holds xs (Malformed v) = False"

definition sees :: "'n world \<Rightarrow> 'n wishlist_item list \<Rightarrow> bool" where
  "sees w xs = list_all (holds xs) (three_reads w)"

text \<open>The wishlist's local store holds a wishlist with the entries \<open>xs\<close>, or nothing
  that can be read while \<open>xs\<close> is empty.\<close>

definition stored :: "'n world \<Rightarrow> 'n wishlist_item list \<Rightarrow> bool" where
  "stored w xs =
     (case storage_get (wishlist_storage w) of None \<Rightarrow> xs = [] | Some r \<Rightarrow> holds xs r)"

text \<open>What a \<^verbatim>\<open>toggleProduct\<close> call reports: whether it added, and how often the
  wishlist it returns holds the product; \<open>None\<close> when it throws or returns a value
  that is no wishlist.\<close>

fun toggle_report :: "'n product \<Rightarrow> error + 'n payload \<times> bool \<Rightarrow> (bool \<times> nat) option" where
  "toggle_report p (Inr (Snapshot l, added)) = Some (added, occurrences p (wl_items l))"
| "toggle_report p (Inr (Malformed v, added)) = None"
| "toggle_report p (Inl e) = None"

text \<open>Two \<^verbatim>\<open>toggleProduct\<close> calls in a row.\<close>

definition toggle_twice ::
  "'n product \<Rightarrow> 'n world \<Rightarrow> (bool \<times> nat) option \<times> (bool \<times> nat) option" where
  "toggle_twice p w =
     (let (r1, w1) = wl_toggleProduct p w;
          (r2, w2) = wl_toggleProduct p w1
      in (toggle_report p r1, toggle_report p r2))"

text \<open>Count and total of each returned collection, and the names of the events
  published, of a run.\<close>

fun counts :: "error + int collection \<Rightarrow> (int \<times> int) option" where
  "counts (Inr (Cart c)) = Some (total_items c, subtotal c)"
| "counts (Inr (Wishlist (Snapshot l))) = Some (wl_total_items l, int (length (wl_items l)))"
| "counts (Inr (Wishlist (Malformed v))) = None"
| "counts (Inl e) = None"

definition tallies ::
  "(error + int collection) list \<times> int world \<Rightarrow> (int \<times> int) option list \<times> topic list" where
  "tallies x = (map counts (fst x), map topic_of (emitted (snd x)))"

text \<open>What a wishlist call returned and left behind: the entry identifiers and products
  returned, the number of remote reads issued so far, the entry identifiers in the
  local store, and the names of the events published.\<close>

fun entries :: "'n payload \<Rightarrow> 'n wishlist_item list option" where
  "entries (Snapshot l) = Some (wl_items l)"
| "entries (Malformed v) = None"

definition wishlist_view ::
  "(error + 'n payload) \<times> 'n world \<Rightarrow>
     (string list \<times> 'n product list) option \<times> nat \<times> string list option \<times> topic list" where
  "wishlist_view x =
     ((case fst x of
         Inl e \<Rightarrow> None
       | Inr r \<Rightarrow> map_option (\<lambda>xs. (map wl_item_id xs, map wl_product xs)) (entries r)),
      remote_gets (snd x),
      (case item (wishlist_storage (snd x)) of
         None \<Rightarrow> None
       | Some r \<Rightarrow> map_option (map wl_item_id) (entries r)),
      map topic_of (emitted (snd x)))"

subsection \<open>Concrete products, collections and worlds\<close>

definition lamp :: "int product" where
  "lamp = \<lparr>product_id = 1, product_title = ''Lamp'', product_price = 10\<rparr>"

definition mug :: "int product" where
  "mug = \<lparr>product_id = 2, product_title = ''Mug'', product_price = 5\<rparr>"

definition kettle :: "int product" where
  "kettle = \<lparr>product_id = 3, product_title = ''Kettle'', product_price = 30\<rparr>"

text \<open>A first visit: empty working stores, nobody signed in, a backend without records.
  The clock shows \<open>10\<close>, \<open>11\<close>, ... at its successive reads.\<close>

definition fresh_world :: "int world" where
  "fresh_world =
     \<lparr>clock = (\<lambda>n. 10 + n), clock_reads = 0,
      random = (\<lambda>n. ''k'' @ dec n), random_reads = 0,
      cart_storage = \<lparr>available = True, writable = True, item = None\<rparr>,
      wishlist_storage = \<lparr>available = True, writable = True, item = None\<rparr>,
      userId = None, remote_get = (\<lambda>n. NoRecord), remote_gets = 0, remote_posts = [],
      emitted = []\<rparr>"

definition cart_two :: "int cart" where
  "cart_two =
     \<lparr>cart_id = ''cart_1_k'',
      items = [\<lparr>item_id = ''item_a'', product = lamp, quantity = 2, price = 10\<rparr>,
               \<lparr>item_id = ''item_b'', product = mug, quantity = 1, price = 5\<rparr>],
      subtotal = 25, total_items = 3, created_at = 1, updated_at = 3\<rparr>"

definition wishlist_two :: "int wishlist" where
  "wishlist_two =
     \<lparr>wl_items = [\<lparr>wl_item_id = ''wish_a'', wl_product = lamp, added_at = 4\<rparr>,
                  \<lparr>wl_item_id = ''wish_b'', wl_product = mug, added_at = 5\<rparr>],
      wl_total_items = 2, wl_updated_at = 5\<rparr>"

text \<open>\<open>wishlist_two\<close> after the kettle has been added at the clock's first reads.\<close>

definition wishlist_three :: "int wishlist" where
  "wishlist_three =
     \<lparr>wl_items = [\<lparr>wl_item_id = ''wish_a'', wl_product = lamp, added_at = 4\<rparr>,
                  \<lparr>wl_item_id = ''wish_b'', wl_product = mug, added_at = 5\<rparr>,
                  \<lparr>wl_item_id = ''wishlist_10_k0'', wl_product = kettle, added_at = 11\<rparr>],
      wl_total_items = 3, wl_updated_at = 12\<rparr>"

text \<open>Local stores pre-seeded with two entries each.\<close>

definition stocked_world :: "int world" where
  "stocked_world =
     fresh_world
       \<lparr>cart_storage := \<lparr>available = True, writable = True, item = Some cart_two\<rparr>,
        wishlist_storage :=
          \<lparr>available = True, writable = True, item = Some (Snapshot wishlist_two)\<rparr>\<rparr>"

definition wishlist_remote :: "int wishlist" where
  "wishlist_remote =
     \<lparr>wl_items = [\<lparr>wl_item_id = ''wish_c'', wl_product = mug, added_at = 2\<rparr>],
      wl_total_items = 1, wl_updated_at = 2\<rparr>"

definition unreachable :: "nat \<Rightarrow> int remote_reply" where
  "unreachable n = Throws"

definition answering :: "nat \<Rightarrow> int remote_reply" where
  "answering n = Found (Snapshot wishlist_remote)"

text \<open>A signed-in shopper (\<open>userId = 42\<close>) while the backend is unreachable.\<close>

definition offline_world :: "int world" where
  "offline_world = stocked_world\<lparr>userId := Some 42, remote_get := unreachable\<rparr>"

text \<open>The same shopper with a backend that answers every read with \<open>wishlist_remote\<close>
  (its record is never replaced: the engine's writes do not reach it).\<close>

definition synced_world :: "int world" where
  "synced_world = offline_world\<lparr>remote_get := answering\<rparr>"

text \<open>The same shopper with a backend that takes the engine's writes: it answers the
  first three reads with \<open>wishlist_remote\<close> and the later ones with the wishlist
  that the first \<^verbatim>\<open>toggleProduct\<close> of the lamp will have posted.\<close>

definition wishlist_posted :: "int wishlist" where
  "wishlist_posted =
     \<lparr>wl_items = [\<lparr>wl_item_id = ''wish_c'', wl_product = mug, added_at = 2\<rparr>,
                  \<lparr>wl_item_id = ''wishlist_10_k0'', wl_product = lamp, added_at = 11\<rparr>],
      wl_total_items = 2, wl_updated_at = 12\<rparr>"

definition following :: "nat \<Rightarrow> int remote_reply" where
  "following n = (if n < 3 then Found (Snapshot wishlist_remote)
                  else Found (Snapshot wishlist_posted))"

definition followed_world :: "int world" where
  "followed_world = offline_world\<lparr>remote_get := following\<rparr>"

text \<open>The same shopper with a backend whose record is not a wishlist.\<close>

definition garbled :: "nat \<Rightarrow> int remote_reply" where
  "garbled n = Found (Malformed ''{}'')"

definition garbled_world :: "int world" where
  "garbled_world = offline_world\<lparr>remote_get := garbled\<rparr>"

text \<open>The same shopper with a backend whose record counts five entries and holds
  one.\<close>

definition miscounting :: "nat \<Rightarrow> int remote_reply" where
  "miscounting n = Found (Snapshot (wishlist_remote\<lparr>wl_total_items := 5\<rparr>))"

definition miscounted_world :: "int world" where
  "miscounted_world = offline_world\<lparr>remote_get := miscounting\<rparr>"

text \<open>A stored cart whose totals are not those of its entries, as
  \<^verbatim>\<open>loadFromRemote\<close> stores it when the backend's totals differ.\<close>

definition cart_stale :: "int cart" where
  "cart_stale = cart_two\<lparr>subtotal := 99, total_items := 7\<rparr>"

definition stale_world :: "int world" where
  "stale_world =
     fresh_world\<lparr>cart_storage := \<lparr>available = True, writable = True, item = Some cart_stale\<rparr>\<rparr>"

text \<open>A host without \<^verbatim>\<open>localStorage\<close> for the wishlist.\<close>

definition no_storage_world :: "int world" where
  "no_storage_world =
     fresh_world\<lparr>wishlist_storage := \<lparr>available = False, writable = True, item = None\<rparr>\<rparr>"

text \<open>A stored wishlist that holds the lamp twice.\<close>

definition wishlist_twice :: "int wishlist" where
  "wishlist_twice =
     \<lparr>wl_items = [\<lparr>wl_item_id = ''wish_a'', wl_product = lamp, added_at = 4\<rparr>,
                  \<lparr>wl_item_id = ''wish_d'', wl_product = lamp, added_at = 6\<rparr>],
      wl_total_items = 2, wl_updated_at = 6\<rparr>"

definition duplicate_world :: "int world" where
  "duplicate_world =
     fresh_world
       \<lparr>wishlist_storage :=
          \<lparr>available = True, writable = True, item = Some (Snapshot wishlist_twice)\<rparr>\<rparr>"

text \<open>The cart scenario of the specification: two additions, a quantity update to zero,
  and a clear. The first entry gets the identifier \<open>item_13_k1\<close> in \<open>fresh_world\<close>.\<close>

definition scenario :: "int mutation list" where
  "scenario =
     [CartAddItem lamp 2, CartAddItem mug 1, CartUpdateItemQuantity ''item_13_k1'' 0,
      CartClear]"


section \<open>Properties of the notifier\<close>

lemma set_values_append: "set_values (s @ t) = set_values s @ set_values t"
  by (induction s) (auto split: option.splits)

lemma set_values_set: "set (set_values s) = {h. Some h \<in> set s}"
  by (induction s) (auto split: option.splits)

lemma set_has_values: "set_has s h = (h \<in> set (set_values s))"
  by (simp add: set_has_def set_values_set)

lemma set_add_idem: "set_add (set_add s h) h = set_add s h"
  by (simp add: set_add_def set_has_def)

lemma set_values_add:
  "set_values (set_add s h) = (if h \<in> set (set_values s) then set_values s else set_values s @ [h])"
  by (simp add: set_add_def set_has_values set_values_append)

lemma set_values_delete: "set_values (set_delete s h) = removeAll h (set_values s)"
  by (induction s) (auto simp: set_delete_def split: option.splits)

lemma listeners_on:
  "listeners event (on event h em) =
     (if h \<in> set (listeners event em) then listeners event em else listeners event em @ [h])"
  by (cases "events em event") (simp_all add: on_def listeners_def set_values_add)

lemma listeners_off:
  "listeners event (off event h em) = removeAll h (listeners event em)"
  by (cases "events em event")
     (auto simp: off_def listeners_def set_values_delete Let_def set_size_def)

lemma listenerCount_listeners: "listenerCount event em = length (listeners event em)"
  by (simp add: listenerCount_def listeners_def set_size_def split: option.splits)

lemma wf_new_emitter: "wf_emitter new_emitter"
  by (simp add: wf_emitter_def new_emitter_def)

lemma wf_on: "wf_emitter em \<Longrightarrow> wf_emitter (on event h em)"
  unfolding wf_emitter_def on_def
  by (cases "events em event") (auto simp: set_values_add less_Suc_eq split: if_splits)

lemma wf_off: "wf_emitter em \<Longrightarrow> wf_emitter (off event h em)"
  unfolding wf_emitter_def off_def Let_def
  by (cases "events em event") (auto simp: set_values_delete distinct_removeAll split: if_splits)

lemma wf_removeAllListeners: "wf_emitter em \<Longrightarrow> wf_emitter (removeAllListeners ev em)"
  unfolding wf_emitter_def removeAllListeners_def
  by (auto split: option.splits if_splits)

lemma wf_run_handler: "wf_emitter em \<Longrightarrow> wf_emitter (run_handler as em)"
  by (induction as em rule: run_handler.induct)
     (simp_all add: wf_on wf_off wf_removeAllListeners)

lemma distinct_listeners: "wf_emitter em \<Longrightarrow> distinct (listeners event em)"
  by (simp add: wf_emitter_def listeners_def split: option.splits)

lemma count_list_distinct: "distinct xs \<Longrightarrow> x \<in> set xs \<Longrightarrow> count_list xs x = 1"
  by (induction xs) auto

lemma length_removeAll_distinct:
  "distinct xs \<Longrightarrow> length (removeAll x xs) = length xs - (if x \<in> set xs then 1 else 0)"
proof (induction xs)
  case Nil
  then show ?case by simp
next
  case (Cons a xs)
  then show ?case
    by (cases xs) auto
qed

lemma set_delete_absent: "h \<notin> set (set_values t) \<Longrightarrow> set_delete t h = t"
  by (induction t) (auto simp: set_delete_def split: option.splits)

lemma drop_set_delete: "drop n (set_delete s h) = set_delete (drop n s) h"
  by (simp add: set_delete_def drop_map)

lemma length_set_delete: "length (set_delete s h) = length s"
  by (simp add: set_delete_def)

text \<open>One polite call leaves the tail \<open>t\<close> of the Set that is still to be visited, and
  the number of its slots, as they are.\<close>

lemma iterating_on:
  "iterating event r em \<Longrightarrow> e \<noteq> event \<Longrightarrow>
   iterating event r (on e h em) \<and> sets (on e h em) r = sets em r"
  unfolding iterating_def on_def
  by (cases "events em e") (auto simp: less_Suc_eq)

lemma iterating_off_other:
  "iterating event r em \<Longrightarrow> e \<noteq> event \<Longrightarrow>
   iterating event r (off e h em) \<and> sets (off e h em) r = sets em r"
  unfolding iterating_def off_def Let_def
  by (cases "events em e") (auto split: if_splits)

lemma iterating_off_same:
  assumes i: "iterating event r em"
  shows "iterating event r (off event g em) \<and>
   (sets (off event g em) r = sets em r \<or> sets (off event g em) r = set_delete (sets em r) g)"
proof (cases "events em event")
  case None
  with i show ?thesis by (simp add: off_def)
next
  case (Some r')
  with i have r: "r' = r" by (simp add: iterating_def)
  show ?thesis
  proof (cases "set_size (set_delete (sets em r) g) = 0")
    case True
    with Some r have "off event g em =
        em\<lparr>sets := (sets em)(r := set_delete (sets em r) g),
           events := (events em)(event := None)\<rparr>"
      by (simp add: off_def Let_def)
    with i show ?thesis by (simp add: iterating_def)
  next
    case False
    with Some r have "off event g em = em\<lparr>sets := (sets em)(r := set_delete (sets em r) g)\<rparr>"
      by (simp add: off_def Let_def)
    with i show ?thesis by (simp add: iterating_def)
  qed
qed

lemma iterating_removeAllListeners:
  "iterating event r em \<Longrightarrow>
   iterating event r (removeAllListeners ev em) \<and> sets (removeAllListeners ev em) r = sets em r"
  unfolding iterating_def removeAllListeners_def
  by (auto split: option.splits if_splits)

lemma polite_run_handler:
  assumes t: "set (set_values t) \<subseteq> set later"
  shows "iterating event r em \<Longrightarrow> polite event later as \<Longrightarrow>
    drop n (sets em r) = t \<Longrightarrow> length (sets em r) = m \<Longrightarrow>
    iterating event r (run_handler as em) \<and>
    drop n (sets (run_handler as em) r) = t \<and>
    length (sets (run_handler as em) r) = m"
proof (induction as em rule: run_handler.induct)
  case (1 em)
  then show ?case by simp
next
  case (2 e h as em)
  from 2(3) have e: "e \<noteq> event" and p: "polite event later as"
    by (simp_all add: polite_def)
  from iterating_on [OF 2(2) e, of h] 2(4,5) 2(1) [OF _ p] show ?case by simp
next
  case (3 e g as em)
  from 3(3) have p: "polite event later as"
    and c: "e \<noteq> event \<or> g \<notin> set later"
    by (simp_all add: polite_def)
  show ?case
  proof (cases "e = event")
    case False
    from iterating_off_other [OF 3(2) False, of g] 3(4,5) 3(1) [OF _ p] show ?thesis by simp
  next
    case True
    with c t have g: "g \<notin> set (set_values t)" by blast
    from iterating_off_same [OF 3(2), of g]
    have i: "iterating event r (off event g em)"
      and s: "sets (off event g em) r = sets em r \<or>
              sets (off event g em) r = set_delete (sets em r) g"
      by simp_all
    from s 3(4) g have d: "drop n (sets (off event g em) r) = t"
      by (auto simp: drop_set_delete set_delete_absent)
    from s 3(5) have l: "length (sets (off event g em) r) = m"
      by (auto simp: length_set_delete)
    from 3(1) [OF _ p, of ] i d l True show ?thesis by simp
  qed
next
  case (4 e as em)
  from 4(3) have p: "polite event later as" by (simp add: polite_def)
  from iterating_removeAllListeners [OF 4(2), of e] 4(4,5) 4(1) [OF _ p] show ?case by simp
next
  case (5 as em)
  then show ?case by simp
qed

text \<open>While no handler changes the slots behind its own, the loop visits the slots
  from index \<open>i\<close> on, once each, and needs one unit of fuel per slot.\<close>

lemma forEach_undisturbed:
  "undisturbed fuel body d r i em \<Longrightarrow> drop i (sets em r) = drop i s \<Longrightarrow>
   length s - i \<le> fuel \<Longrightarrow>
   \<exists>em'. forEach fuel body d r i em calls =
           Some (em', calls @ map (\<lambda>h. (h, d)) (set_values (drop i s)))"
proof (induction fuel arbitrary: i em calls)
  case 0
  from 0(2) have "length (sets em r) - i = length s - i"
    by (metis length_drop)
  with 0(3) show ?case by simp
next
  case (Suc fuel)
  from Suc.prems(2) have len: "length (sets em r) - i = length s - i"
    by (metis length_drop)
  show ?case
  proof (cases "i < length s")
    case False
    with len have "\<not> i < length (sets em r)" by simp
    with False show ?thesis by simp
  next
    case True
    with len have lt: "i < length (sets em r)" by simp
    from True have dr: "drop i s = s ! i # drop (Suc i) s"
      by (simp add: Cons_nth_drop_Suc)
    from lt have dr': "drop i (sets em r) = sets em r ! i # drop (Suc i) (sets em r)"
      by (simp add: Cons_nth_drop_Suc)
    from dr dr' Suc.prems(2) have nth: "sets em r ! i = s ! i"
      and tail: "drop (Suc i) (sets em r) = drop (Suc i) s"
      by simp_all
    from True Suc.prems(3) have fuel: "length s - Suc i \<le> fuel" by simp
    show ?thesis
    proof (cases "s ! i")
      case None
      from Suc.prems(1) lt nth None have u: "undisturbed fuel body d r (Suc i) em" by simp
      from Suc.IH [OF u tail fuel, of calls]
      show ?thesis using lt None dr nth by simp
    next
      case (Some h)
      from Suc.prems(1) lt nth Some
      have t: "drop (Suc i) (sets (run_handler (body h d) em) r) = drop (Suc i) (sets em r)"
        and u: "undisturbed fuel body d r (Suc i) (run_handler (body h d) em)"
        by simp_all
      from t tail have t': "drop (Suc i) (sets (run_handler (body h d) em) r) = drop (Suc i) s"
        by simp
      from Suc.IH [OF u t' fuel, of "calls @ [(h, d)]"]
      show ?thesis using lt Some dr nth by simp
    qed
  qed
qed

lemma emit_calm:
  assumes "calm fuel body event d em" and "slot_count event em \<le> fuel"
  shows "\<exists>em'. emit fuel body event d em = Some (em', map (\<lambda>h. (h, d)) (listeners event em))"
proof (cases "events em event")
  case None
  then show ?thesis by (simp add: emit_def listeners_def)
next
  case (Some r)
  with assms have u: "undisturbed fuel body d r 0 em"
    and f: "length (sets em r) - 0 \<le> fuel"
    by (simp_all add: calm_def slot_count_def)
  from forEach_undisturbed [OF u _ f, of "[]"]
  show ?thesis using Some by (simp add: emit_def listeners_def)
qed

text \<open>Handlers that are polite towards the handlers in the slots behind their own
  change none of those slots.\<close>

lemma undisturbed_polite:
  assumes q: "\<forall>i < length s. \<forall>h. s ! i = Some h \<longrightarrow>
                polite event (set_values (drop (Suc i) s)) (body h d)"
  shows "iterating event r em \<Longrightarrow> drop i (sets em r) = drop i s \<Longrightarrow>
    length (sets em r) = length s \<Longrightarrow> undisturbed fuel body d r i em"
proof (induction fuel arbitrary: i em)
  case 0
  then show ?case by simp
next
  case (Suc fuel)
  show ?case
  proof (cases "i < length s")
    case False
    with Suc.prems show ?thesis by simp
  next
    case True
    then have dr: "drop i s = s ! i # drop (Suc i) s"
      by (simp add: Cons_nth_drop_Suc)
    from True Suc.prems(3) have dr': "drop i (sets em r) = sets em r ! i # drop (Suc i) (sets em r)"
      by (simp add: Cons_nth_drop_Suc)
    from dr dr' Suc.prems(2) have nth: "sets em r ! i = s ! i"
      and tail: "drop (Suc i) (sets em r) = drop (Suc i) s"
      by simp_all
    show ?thesis
    proof (cases "s ! i")
      case None
      from Suc.IH [OF Suc.prems(1) tail Suc.prems(3)]
      show ?thesis using True None nth Suc.prems(3) by simp
    next
      case (Some h)
      with q True have p: "polite event (set_values (drop (Suc i) s)) (body h d)" by blast
      from polite_run_handler [OF subset_refl Suc.prems(1) p tail Suc.prems(3)]
      have o: "iterating event r (run_handler (body h d) em)"
        and t: "drop (Suc i) (sets (run_handler (body h d) em) r) = drop (Suc i) s"
        and l: "length (sets (run_handler (body h d) em) r) = length s"
        by simp_all
      from Suc.IH [OF o t l] t tail
      show ?thesis using True Some nth Suc.prems(3) by simp
    qed
  qed
qed

lemma set_values_behind:
  assumes "distinct (set_values s)" and "i < length s" and "s ! i = Some h"
  shows "set_values (drop (Suc i) s) = tl (dropWhile (\<lambda>g. g \<noteq> h) (set_values s))"
proof -
  from assms(2,3) have s: "s = take i s @ Some h # drop (Suc i) s"
    by (metis id_take_nth_drop)
  then have v: "set_values s = set_values (take i s) @ h # set_values (drop (Suc i) s)"
    by (metis option.simps(5) set_values.simps(2) set_values_append)
  with assms(1) have "h \<notin> set (set_values (take i s))"
    by auto
  then have "dropWhile (\<lambda>g. g \<noteq> h) (set_values (take i s) @ h # set_values (drop (Suc i) s)) =
      h # set_values (drop (Suc i) s)"
    by (subst dropWhile_append2) auto
  with v show ?thesis by simp
qed

lemma polite_calm:
  assumes "wf_emitter em"
    and "\<forall>h \<in> set (listeners event em). polite event (later_handlers event em h) (body h d)"
  shows "calm fuel body event d em"
proof (cases "events em event")
  case None
  then show ?thesis by (simp add: calm_def)
next
  case (Some r)
  with assms(1) have o: "iterating event r em"
    unfolding wf_emitter_def iterating_def by blast
  from assms(1) have di: "distinct (set_values (sets em r))"
    by (simp add: wf_emitter_def)
  have q: "\<forall>i < length (sets em r). \<forall>h. sets em r ! i = Some h \<longrightarrow>
             polite event (set_values (drop (Suc i) (sets em r))) (body h d)"
  proof (intro allI impI)
    fix i h assume i: "i < length (sets em r)" and h: "sets em r ! i = Some h"
    then have "Some h \<in> set (sets em r)" by (metis nth_mem)
    then have "h \<in> set (listeners event em)"
      using Some by (simp add: listeners_def set_values_set)
    with assms(2) have "polite event (later_handlers event em h) (body h d)" by blast
    with set_values_behind [OF di i h] Some
    show "polite event (set_values (drop (Suc i) (sets em r))) (body h d)"
      by (simp add: later_handlers_def listeners_def)
  qed
  from undisturbed_polite [of "sets em r" event body d r em 0 fuel] q o
  show ?thesis using Some by (simp add: calm_def)
qed

lemma emit_polite:
  assumes "wf_emitter em"
    and "\<forall>h \<in> set (listeners event em). polite event (later_handlers event em h) (body h d)"
    and "slot_count event em \<le> fuel"
  shows "\<exists>em'. emit fuel body event d em = Some (em', map (\<lambda>h. (h, d)) (listeners event em))"
proof -
  from assms(1,2) have "calm fuel body event d em"
    using polite_calm [of em event body d fuel] by blast
  then show ?thesis using assms(3) by (rule emit_calm)
qed

lemma quiet_polite: "quiet event as \<Longrightarrow> polite event later as"
proof (induction as)
  case Nil
  then show ?case by (simp add: polite_def)
next
  case (Cons a as)
  then show ?case by (cases a) (simp_all add: quiet_def polite_def)
qed

lemma emit_quiet:
  assumes "wf_emitter em"
    and "\<forall>h \<in> set (listeners event em). quiet event (body h d)"
    and "slot_count event em \<le> fuel"
  shows "\<exists>em'. emit fuel body event d em = Some (em', map (\<lambda>h. (h, d)) (listeners event em))"
  using assms(1) _ assms(3)
proof (rule emit_polite)
  from assms(2) show "\<forall>h \<in> set (listeners event em).
      polite event (later_handlers event em h) (body h d)"
    by (blast intro: quiet_polite)
qed

text \<open>
  C8 (as amended). Let the handlers call nothing of the emitter but \<^verbatim>\<open>on\<close>,
  \<^verbatim>\<open>off\<close> and \<^verbatim>\<open>removeAllListeners\<close> while they run (a handler that publishes
  from inside a publish is not covered). When no handler, while it runs, changes the part
  of the topic's handler Set that the publish has still to visit, so that none adds a
  handler to that Set and none removes from it a handler that has not had its turn, then
  \<^verbatim>\<open>emit\<close> returns and has invoked exactly the handlers registered for the topic at
  the moment it was called, each once, synchronously and in registration order. This is
  so in particular when the handlers subscribe nobody to the topic and unsubscribe from
  it only themselves, as the wrapper of \<^verbatim>\<open>once\<close> does, or handlers whose turn is
  over; such a handler may fail, and may call \<^verbatim>\<open>removeAllListeners\<close>, which
  leaves the Set that is being visited as it is.
\<close>

theorem emit_delivers_registered_handlers:
  "(calm fuel body event d em \<and> slot_count event em \<le> fuel \<longrightarrow>
      (\<exists>em'. emit fuel body event d em =
               Some (em', map (\<lambda>h. (h, d)) (listeners event em)))) \<and>
   (wf_emitter em \<and>
    (\<forall>h \<in> set (listeners event em).
        polite event (later_handlers event em h) (body h d)) \<longrightarrow>
      calm fuel body event d em)"
  using emit_calm [of fuel body event d em] polite_calm [of em event body d fuel]
  by blast

theorem emit_delivers_registered_handlers_witness:
  "listeners ''cart:cleared'' (on ''cart:cleared'' 2 (on ''cart:cleared'' 1 new_emitter)) = [1, 2] \<and>
   calm 2 once_like ''cart:cleared'' () (on ''cart:cleared'' 2 (on ''cart:cleared'' 1 new_emitter)) \<and>
   map_option snd
     (emit 2 once_like ''cart:cleared'' () (on ''cart:cleared'' 2 (on ''cart:cleared'' 1 new_emitter)))
   = Some [(1, ()), (2, ())]"
proof -
  let ?em = "on ''cart:cleared'' 2 (on ''cart:cleared'' 1 new_emitter)"
  have wf: "wf_emitter ?em"
    by (intro wf_on wf_new_emitter)
  have l: "listeners ''cart:cleared'' ?em = [1, 2]"
    by code_simp
  have q: "\<forall>h \<in> set (listeners ''cart:cleared'' ?em).
      polite ''cart:cleared'' (later_handlers ''cart:cleared'' ?em h) (once_like h ())"
    unfolding later_handlers_def l by (simp add: once_like_def polite_def)
  have f: "slot_count ''cart:cleared'' ?em \<le> 2"
    by (simp add: slot_count_def on_def new_emitter_def set_add_def set_has_def)
  from emit_delivers_registered_handlers [of 2 once_like "''cart:cleared''" "()" ?em] wf q
  have c: "calm 2 once_like ''cart:cleared'' () ?em"
    by blast
  from emit_delivers_registered_handlers [of 2 once_like "''cart:cleared''" "()" ?em] c f
  obtain em' where "emit 2 once_like ''cart:cleared'' () ?em =
      Some (em', map (\<lambda>h. (h, ())) (listeners ''cart:cleared'' ?em))"
    by blast
  with l c show ?thesis by simp
qed

text \<open>
  C8 (as stated) fails in both directions. Handler \<open>1\<close> is the only handler registered
  when \<^verbatim>\<open>emit\<close> is called; while it runs it registers handler \<open>2\<close> for the same
  event, and the same \<^verbatim>\<open>emit\<close> call invokes handler \<open>2\<close> as well. And with
  handlers \<open>1\<close> and \<open>2\<close> registered when \<^verbatim>\<open>emit\<close> is called, handler \<open>1\<close>
  unsubscribes handler \<open>2\<close>, which the call then does not invoke.
\<close>

theorem emit_late_handler_counterexample:
  "listeners ''cart:cleared'' (on ''cart:cleared'' 1 new_emitter) = [1] \<and>
   map_option snd
     (emit 2 late_subscriber ''cart:cleared'' () (on ''cart:cleared'' 1 new_emitter))
   = Some [(1, ()), (2, ())] \<and>
   listeners ''cart:cleared'' (on ''cart:cleared'' 2 (on ''cart:cleared'' 1 new_emitter)) = [1, 2] \<and>
   map_option snd
     (emit 2 early_unsubscriber ''cart:cleared'' ()
        (on ''cart:cleared'' 2 (on ''cart:cleared'' 1 new_emitter)))
   = Some [(1, ())]"
  by code_simp

text \<open>
  C10. Registering the same handler twice for the same event is registering it once: the
  emitter state is the same. After it, \<^verbatim>\<open>listenerCount\<close> counts the handler once, a
  publish (with handlers that leave the event's subscriptions alone) invokes it exactly
  once, and a single \<^verbatim>\<open>off\<close> removes it entirely.
\<close>

theorem subscription_idempotent:
  assumes "wf_emitter em"
  shows "on event h (on event h em) = on event h em \<and>
    count_list (listeners event (on event h (on event h em))) h = 1 \<and>
    listenerCount event (on event h (on event h em)) =
      listenerCount event em + (if h \<in> set (listeners event em) then 0 else 1) \<and>
    h \<notin> set (listeners event (off event h (on event h (on event h em)))) \<and>
    listenerCount event (off event h (on event h (on event h em))) =
      listenerCount event (on event h (on event h em)) - 1 \<and>
    ((\<forall>g \<in> set (listeners event (on event h em)). quiet event (body g d)) \<and>
     slot_count event (on event h em) \<le> fuel \<longrightarrow>
     (\<exists>em' calls. emit fuel body event d (on event h (on event h em)) = Some (em', calls) \<and>
        count_list (map fst calls) h = 1))"
proof -
  have twice: "on event h (on event h em) = on event h em"
    by (cases "events em event") (simp_all add: on_def set_add_idem)
  have wf1: "wf_emitter (on event h em)"
    using assms by (rule wf_on)
  have d1: "distinct (listeners event (on event h em))"
    using wf1 by (rule distinct_listeners)
  have mem: "h \<in> set (listeners event (on event h em))"
    by (simp add: listeners_on)
  have once: "count_list (listeners event (on event h em)) h = 1"
    using d1 mem by (rule count_list_distinct)
  have cnt: "listenerCount event (on event h em) =
      listenerCount event em + (if h \<in> set (listeners event em) then 0 else 1)"
    by (simp add: listenerCount_listeners listeners_on)
  have gone: "h \<notin> set (listeners event (off event h (on event h em)))"
    by (simp add: listeners_off)
  have less: "listenerCount event (off event h (on event h em)) =
      listenerCount event (on event h em) - 1"
    using d1 mem by (simp add: listenerCount_listeners listeners_off length_removeAll_distinct)
  have pub: "\<exists>em' calls. emit fuel body event d (on event h em) = Some (em', calls) \<and>
        count_list (map fst calls) h = 1"
    if q: "\<forall>g \<in> set (listeners event (on event h em)). quiet event (body g d)"
      and f: "slot_count event (on event h em) \<le> fuel"
  proof -
    from emit_quiet [of "on event h em" event body d fuel] wf1 q f obtain em' where
      e: "emit fuel body event d (on event h em) =
            Some (em', map (\<lambda>g. (g, d)) (listeners event (on event h em)))" by blast
    have "map fst (map (\<lambda>g. (g, d)) (listeners event (on event h em))) =
            listeners event (on event h em)"
      by (simp add: comp_def)
    with e once show ?thesis by simp
  qed
  from twice once cnt gone less pub show ?thesis by simp
qed

theorem subscription_idempotent_witness:
  "on ''cart:cleared'' 7 (on ''cart:cleared'' 7 new_emitter) = on ''cart:cleared'' 7 new_emitter \<and>
   listenerCount ''cart:cleared'' (on ''cart:cleared'' 7 (on ''cart:cleared'' 7 new_emitter)) = 1 \<and>
   listenerCount ''cart:cleared''
     (off ''cart:cleared'' 7 (on ''cart:cleared'' 7 (on ''cart:cleared'' 7 new_emitter))) = 0 \<and>
   (\<exists>em' calls.
      emit 1 observers ''cart:cleared'' () (on ''cart:cleared'' 7 (on ''cart:cleared'' 7 new_emitter))
        = Some (em', calls) \<and> count_list (map fst calls) 7 = 1)"
proof -
  have q: "\<forall>g \<in> set (listeners ''cart:cleared'' (on ''cart:cleared'' 7 new_emitter)).
             quiet ''cart:cleared'' (observers g ())"
    by (simp add: observers_def quiet_def)
  have f: "slot_count ''cart:cleared'' (on ''cart:cleared'' 7 new_emitter) \<le> 1"
    by (simp add: slot_count_def on_def new_emitter_def set_add_def set_has_def)
  have z: "listenerCount ''cart:cleared'' new_emitter = 0"
          "listeners ''cart:cleared'' new_emitter = []"
    by (simp_all add: listenerCount_def listeners_def new_emitter_def)
  note t = subscription_idempotent [OF wf_new_emitter, of "''cart:cleared''" 7 observers "()" 1]
  from t have a: "on ''cart:cleared'' 7 (on ''cart:cleared'' 7 new_emitter) =
      on ''cart:cleared'' 7 new_emitter"
    by blast
  from t have "listenerCount ''cart:cleared'' (on ''cart:cleared'' 7 (on ''cart:cleared'' 7 new_emitter)) =
      listenerCount ''cart:cleared'' new_emitter +
        (if 7 \<in> set (listeners ''cart:cleared'' new_emitter) then 0 else 1)"
    by blast
  with z have b: "listenerCount ''cart:cleared''
      (on ''cart:cleared'' 7 (on ''cart:cleared'' 7 new_emitter)) = 1"
    by simp
  from t have "listenerCount ''cart:cleared''
      (off ''cart:cleared'' 7 (on ''cart:cleared'' 7 (on ''cart:cleared'' 7 new_emitter))) =
      listenerCount ''cart:cleared'' (on ''cart:cleared'' 7 (on ''cart:cleared'' 7 new_emitter)) - 1"
    by blast
  with b have c: "listenerCount ''cart:cleared''
      (off ''cart:cleared'' 7 (on ''cart:cleared'' 7 (on ''cart:cleared'' 7 new_emitter))) = 0"
    by simp
  from t q f have d: "\<exists>em' calls.
      emit 1 observers ''cart:cleared'' () (on ''cart:cleared'' 7 (on ''cart:cleared'' 7 new_emitter))
        = Some (em', calls) \<and> count_list (map fst calls) 7 = 1"
    by blast
  from a b c d show ?thesis by blast
qed


section \<open>Steps of the engines: what they return and what they leave alone\<close>

text \<open>
  For every step of an engine, the lemmas of this section give the stores, the owner
  identity, the backend bookkeeping and the event trace of the world after the step in
  terms of the world before it, so that a call can be followed through its steps without
  unfolding them.
\<close>

lemma entry_sum_map: "entry_sum (map f xs) = foldl (\<lambda>total i. total + f i) 0 xs"
  by (simp add: entry_sum_def foldl_map)

lemma entry_sum_exact: "entry_sum xs = sum_list (xs :: 'a::monoid_add list)"
proof -
  have "foldl (+) a xs = a + sum_list xs" for a :: 'a
    by (induction xs arbitrary: a) (simp_all add: add.assoc)
  from this [of 0] show ?thesis by (simp add: entry_sum_def)
qed

lemma storage_set_fields [simp]:
  "item (snd (storage_set v st)) = (if available st \<and> writable st then Some v else item st)"
  "available (snd (storage_set v st)) = available st"
  "writable (snd (storage_set v st)) = writable st"
  by (simp_all add: storage_set_def)

lemma storage_get_set [simp]:
  "storage_get (snd (storage_set v st)) =
     (if available st \<and> writable st then Some v else storage_get st)"
  by (simp add: storage_get_def storage_set_def)

lemma findIndex_Some:
  "findIndex P xs = Some k \<Longrightarrow> k < length xs \<and> P (xs ! k)"
  by (induction xs arbitrary: k) (auto split: if_splits)

lemma findIndex_None: "findIndex P xs = None \<longleftrightarrow> \<not> list_ex P xs"
  by (induction xs) auto

lemma find_None_list_ex: "find P xs = None \<longleftrightarrow> \<not> list_ex P xs"
  by (induction xs) auto

lemma findIndex_Some_ex: "findIndex P xs = Some k \<Longrightarrow> list_ex P xs"
  using findIndex_None [of P xs] by simp

lemma find_Some_ex: "find P xs = Some x \<Longrightarrow> list_ex P xs"
  using find_None_list_ex [of P xs] by simp

lemma find_first:
  "list_ex P xs \<Longrightarrow> \<exists>x. find P xs = Some x \<and> x \<in> set xs \<and> P x"
  by (induction xs) auto

lemma date_now_frame [simp]:
  "cart_storage (snd (date_now w)) = cart_storage w"
  "wishlist_storage (snd (date_now w)) = wishlist_storage w"
  "userId (snd (date_now w)) = userId w"
  "remote_get (snd (date_now w)) = remote_get w"
  "remote_gets (snd (date_now w)) = remote_gets w"
  "remote_posts (snd (date_now w)) = remote_posts w"
  "emitted (snd (date_now w)) = emitted w"
  by (simp_all add: date_now_def)

lemma math_random_frame [simp]:
  "cart_storage (snd (math_random w)) = cart_storage w"
  "wishlist_storage (snd (math_random w)) = wishlist_storage w"
  "userId (snd (math_random w)) = userId w"
  "remote_get (snd (math_random w)) = remote_get w"
  "remote_gets (snd (math_random w)) = remote_gets w"
  "remote_posts (snd (math_random w)) = remote_posts w"
  "emitted (snd (math_random w)) = emitted w"
  by (simp_all add: math_random_def)

lemma emit_event_frame [simp]:
  "cart_storage (emit_event ev w) = cart_storage w"
  "wishlist_storage (emit_event ev w) = wishlist_storage w"
  "userId (emit_event ev w) = userId w"
  "remote_get (emit_event ev w) = remote_get w"
  "remote_gets (emit_event ev w) = remote_gets w"
  "remote_posts (emit_event ev w) = remote_posts w"
  "emitted (emit_event ev w) = emitted w @ [ev]"
  by (simp_all add: emit_event_def)

lemma cart_storage_set_frame [simp]:
  "cart_storage (cart_storage_set c w) = snd (storage_set c (cart_storage w))"
  "wishlist_storage (cart_storage_set c w) = wishlist_storage w"
  "userId (cart_storage_set c w) = userId w"
  "remote_get (cart_storage_set c w) = remote_get w"
  "remote_gets (cart_storage_set c w) = remote_gets w"
  "remote_posts (cart_storage_set c w) = remote_posts w"
  "emitted (cart_storage_set c w) = emitted w"
  by (simp_all add: cart_storage_set_def)

lemma generateItemId_frame [simp]:
  "cart_storage (snd (generateItemId w)) = cart_storage w"
  "wishlist_storage (snd (generateItemId w)) = wishlist_storage w"
  "userId (snd (generateItemId w)) = userId w"
  "remote_get (snd (generateItemId w)) = remote_get w"
  "remote_gets (snd (generateItemId w)) = remote_gets w"
  "remote_posts (snd (generateItemId w)) = remote_posts w"
  "emitted (snd (generateItemId w)) = emitted w"
  by (simp_all add: generateItemId_def split_beta)

lemma createEmptyCart_frame [simp]:
  "cart_storage (snd (createEmptyCart w)) = cart_storage w"
  "wishlist_storage (snd (createEmptyCart w)) = wishlist_storage w"
  "userId (snd (createEmptyCart w)) = userId w"
  "remote_get (snd (createEmptyCart w)) = remote_get w"
  "remote_gets (snd (createEmptyCart w)) = remote_gets w"
  "remote_posts (snd (createEmptyCart w)) = remote_posts w"
  "emitted (snd (createEmptyCart w)) = emitted w"
  "items (fst (createEmptyCart w)) = []"
  "subtotal (fst (createEmptyCart w)) = 0"
  "total_items (fst (createEmptyCart w)) = 0"
  by (simp_all add: createEmptyCart_def generateCartId_def split_beta)

lemma updateCartTotals_frame [simp]:
  "cart_storage (snd (updateCartTotals c w)) = cart_storage w"
  "wishlist_storage (snd (updateCartTotals c w)) = wishlist_storage w"
  "userId (snd (updateCartTotals c w)) = userId w"
  "remote_get (snd (updateCartTotals c w)) = remote_get w"
  "remote_gets (snd (updateCartTotals c w)) = remote_gets w"
  "remote_posts (snd (updateCartTotals c w)) = remote_posts w"
  "emitted (snd (updateCartTotals c w)) = emitted w"
  "items (fst (updateCartTotals c w)) = items c"
  "cart_id (fst (updateCartTotals c w)) = cart_id c"
  "created_at (fst (updateCartTotals c w)) = created_at c"
  "subtotal (fst (updateCartTotals c w)) = entry_sum (map (\<lambda>i. price i * quantity i) (items c))"
  "total_items (fst (updateCartTotals c w)) = entry_sum (map quantity (items c))"
  by (simp_all add: updateCartTotals_def date_now_def Let_def entry_sum_map)

lemma cart_get_frame [simp]:
  "cart_storage (snd (cart_get w)) = cart_storage w"
  "wishlist_storage (snd (cart_get w)) = wishlist_storage w"
  "userId (snd (cart_get w)) = userId w"
  "remote_get (snd (cart_get w)) = remote_get w"
  "remote_gets (snd (cart_get w)) = remote_gets w"
  "remote_posts (snd (cart_get w)) = remote_posts w"
  "emitted (snd (cart_get w)) = emitted w"
  by (simp_all add: cart_get_def split: option.splits)

lemma cart_get_result:
  "fst (cart_get w) =
     (case storage_get (cart_storage w) of Some c \<Rightarrow> c | None \<Rightarrow> fst (createEmptyCart w))"
  by (simp add: cart_get_def split: option.splits)

lemma updateCartTotals_pure: "cart_pure (fst (updateCartTotals c w))"
  by (simp add: cart_pure_def)

lemma createEmptyCart_pure: "cart_pure (fst (createEmptyCart w))"
  by (simp add: cart_pure_def entry_sum_def)

lemma cart_get_pure: "snapshots_pure w \<Longrightarrow> cart_pure (fst (cart_get w))"
  by (simp add: cart_get_def storage_get_def snapshots_pure_def createEmptyCart_pure
      split: option.splits if_splits)

lemma cart_addItem_pure: "cart_pure (fst (cart_addItem p q w))"
  by (simp add: cart_addItem_def split_beta Let_def updateCartTotals_pure split: option.splits)

lemma cart_addItem_frame [simp]:
  "cart_storage (snd (cart_addItem p q w)) = snd (storage_set (fst (cart_addItem p q w)) (cart_storage w))"
  "wishlist_storage (snd (cart_addItem p q w)) = wishlist_storage w"
  "userId (snd (cart_addItem p q w)) = userId w"
  "remote_get (snd (cart_addItem p q w)) = remote_get w"
  "remote_gets (snd (cart_addItem p q w)) = remote_gets w"
  "remote_posts (snd (cart_addItem p q w)) = remote_posts w"
  "emitted (snd (cart_addItem p q w)) = emitted w @ [CartItemAdded (added_entry p (items (fst (cart_get w))) (fst (cart_addItem p q w))) (fst (cart_addItem p q w))]"
  by (simp_all add: cart_addItem_def added_entry_def split_beta Let_def split: option.splits)

lemma cart_removeItem_absent:
  "\<not> list_ex (\<lambda>i. item_id i = itemId) (items (fst (cart_get w))) \<Longrightarrow>
   cart_removeItem itemId w = cart_get w"
  using find_None_list_ex [of "\<lambda>i. item_id i = itemId" "items (fst (cart_get w))"]
  by (simp add: cart_removeItem_def split_beta)

lemma cart_removeItem_present:
  "list_ex (\<lambda>i. item_id i = itemId) (items (fst (cart_get w))) \<Longrightarrow>
   cart_pure (fst (cart_removeItem itemId w)) \<and>
   items (fst (cart_removeItem itemId w)) =
     filter (\<lambda>i. item_id i \<noteq> itemId) (items (fst (cart_get w)))"
  using find_None_list_ex [of "\<lambda>i. item_id i = itemId" "items (fst (cart_get w))"]
  by (auto simp: cart_removeItem_def split_beta Let_def updateCartTotals_pure
      split: option.splits)

lemma cart_removeItem_pure:
  "snapshots_pure w \<Longrightarrow> cart_pure (fst (cart_removeItem itemId w))"
  by (simp add: cart_removeItem_def split_beta Let_def updateCartTotals_pure cart_get_pure
      split: option.splits)

lemma cart_removeItem_frame [simp]:
  "cart_storage (snd (cart_removeItem itemId w)) = (if list_ex (\<lambda>i. item_id i = itemId) (items (fst (cart_get w))) then snd (storage_set (fst (cart_removeItem itemId w)) (cart_storage w)) else cart_storage w)"
  "wishlist_storage (snd (cart_removeItem itemId w)) = wishlist_storage w"
  "userId (snd (cart_removeItem itemId w)) = userId w"
  "remote_get (snd (cart_removeItem itemId w)) = remote_get w"
  "remote_gets (snd (cart_removeItem itemId w)) = remote_gets w"
  "remote_posts (snd (cart_removeItem itemId w)) = remote_posts w"
  "emitted (snd (cart_removeItem itemId w)) = (if list_ex (\<lambda>i. item_id i = itemId) (items (fst (cart_get w))) then emitted w @ [CartItemRemoved itemId (fst (cart_removeItem itemId w))] else emitted w)"
  by (auto simp: cart_removeItem_def split_beta Let_def find_None_list_ex split: option.splits dest: find_Some_ex)

lemma cart_updateItemQuantity_absent:
  "\<not> list_ex (\<lambda>i. item_id i = itemId) (items (fst (cart_get w))) \<Longrightarrow>
   cart_updateItemQuantity itemId q w = cart_get w"
  using findIndex_None [of "\<lambda>i. item_id i = itemId" "items (fst (cart_get w))"]
  by (simp add: cart_updateItemQuantity_def cart_removeItem_absent split_beta)

lemma cart_updateItemQuantity_present:
  "list_ex (\<lambda>i. item_id i = itemId) (items (fst (cart_get w))) \<Longrightarrow>
   cart_pure (fst (cart_updateItemQuantity itemId q w))"
  using findIndex_None [of "\<lambda>i. item_id i = itemId" "items (fst (cart_get w))"]
  by (auto simp: cart_updateItemQuantity_def split_beta Let_def updateCartTotals_pure
      cart_removeItem_present split: option.splits)

lemma cart_updateItemQuantity_pure:
  "snapshots_pure w \<Longrightarrow> cart_pure (fst (cart_updateItemQuantity itemId q w))"
  by (simp add: cart_updateItemQuantity_def split_beta Let_def updateCartTotals_pure cart_get_pure
      cart_removeItem_pure split: option.splits)

lemma cart_updateItemQuantity_frame [simp]:
  "cart_storage (snd (cart_updateItemQuantity itemId q w)) = (if list_ex (\<lambda>i. item_id i = itemId) (items (fst (cart_get w))) then snd (storage_set (fst (cart_updateItemQuantity itemId q w)) (cart_storage w)) else cart_storage w)"
  "wishlist_storage (snd (cart_updateItemQuantity itemId q w)) = wishlist_storage w"
  "userId (snd (cart_updateItemQuantity itemId q w)) = userId w"
  "remote_get (snd (cart_updateItemQuantity itemId q w)) = remote_get w"
  "remote_gets (snd (cart_updateItemQuantity itemId q w)) = remote_gets w"
  "remote_posts (snd (cart_updateItemQuantity itemId q w)) = remote_posts w"
  "emitted (snd (cart_updateItemQuantity itemId q w)) = (if list_ex (\<lambda>i. item_id i = itemId) (items (fst (cart_get w))) then emitted w @ [if q \<le> 0 then CartItemRemoved itemId (fst (cart_updateItemQuantity itemId q w)) else CartItemUpdated (updated_entry itemId (items (fst (cart_get w))) (fst (cart_updateItemQuantity itemId q w))) (fst (cart_updateItemQuantity itemId q w))] else emitted w)"
  by (auto simp: cart_updateItemQuantity_def updated_entry_def split_beta Let_def findIndex_None split: option.splits dest: findIndex_Some_ex)

lemma cart_clear_pure: "cart_pure (fst (cart_clear w))"
  by (simp add: cart_clear_def split_beta Let_def createEmptyCart_pure)

lemma cart_clear_frame [simp]:
  "cart_storage (snd (cart_clear w)) = snd (storage_set (fst (cart_clear w)) (cart_storage w))"
  "wishlist_storage (snd (cart_clear w)) = wishlist_storage w"
  "userId (snd (cart_clear w)) = userId w"
  "remote_get (snd (cart_clear w)) = remote_get w"
  "remote_gets (snd (cart_clear w)) = remote_gets w"
  "remote_posts (snd (cart_clear w)) = remote_posts w"
  "emitted (snd (cart_clear w)) = emitted w @ [CartCleared (fst (cart_clear w))]"
  by (simp_all add: cart_clear_def split_beta Let_def)

lemma wishlist_storage_set_frame [simp]:
  "cart_storage (wishlist_storage_set l w) = cart_storage w"
  "wishlist_storage (wishlist_storage_set l w) = snd (storage_set l (wishlist_storage w))"
  "userId (wishlist_storage_set l w) = userId w"
  "remote_get (wishlist_storage_set l w) = remote_get w"
  "remote_gets (wishlist_storage_set l w) = remote_gets w"
  "remote_posts (wishlist_storage_set l w) = remote_posts w"
  "emitted (wishlist_storage_set l w) = emitted w"
  by (simp_all add: wishlist_storage_set_def)

lemma saveToRemote_frame [simp]:
  "cart_storage (saveToRemote l w) = cart_storage w"
  "wishlist_storage (saveToRemote l w) = wishlist_storage w"
  "userId (saveToRemote l w) = userId w"
  "remote_get (saveToRemote l w) = remote_get w"
  "remote_gets (saveToRemote l w) = remote_gets w"
  "remote_posts (saveToRemote l w) = (case userId w of None \<Rightarrow> remote_posts w | Some u \<Rightarrow> if u = 0 then remote_posts w else remote_posts w @ [\<lparr>post_owner = u, post_kind = wishlistKind, post_data = l\<rparr>])"
  "emitted (saveToRemote l w) = emitted w"
  by (simp_all add: saveToRemote_def userId_truthy_def split: option.splits)

lemma getRemoteWishlist_frame [simp]:
  "cart_storage (snd (getRemoteWishlist w)) = cart_storage w"
  "wishlist_storage (snd (getRemoteWishlist w)) = wishlist_storage w"
  "userId (snd (getRemoteWishlist w)) = userId w"
  "remote_get (snd (getRemoteWishlist w)) = remote_get w"
  "remote_gets (snd (getRemoteWishlist w)) = (if userId_truthy w then Suc (remote_gets w) else remote_gets w)"
  "remote_posts (snd (getRemoteWishlist w)) = remote_posts w"
  "emitted (snd (getRemoteWishlist w)) = emitted w"
  "fst (getRemoteWishlist w) = (if userId_truthy w then (case remote_get w (remote_gets w) of Found r \<Rightarrow> Some r | NoRecord \<Rightarrow> None | Throws \<Rightarrow> None) else None)"
  by (simp_all add: getRemoteWishlist_def Let_def split: remote_reply.splits)

lemma createEmptyWishlist_frame [simp]:
  "cart_storage (snd (createEmptyWishlist w)) = cart_storage w"
  "wishlist_storage (snd (createEmptyWishlist w)) = wishlist_storage w"
  "userId (snd (createEmptyWishlist w)) = userId w"
  "remote_get (snd (createEmptyWishlist w)) = remote_get w"
  "remote_gets (snd (createEmptyWishlist w)) = remote_gets w"
  "remote_posts (snd (createEmptyWishlist w)) = remote_posts w"
  "emitted (snd (createEmptyWishlist w)) = emitted w"
  "wl_items (fst (createEmptyWishlist w)) = []"
  "wl_total_items (fst (createEmptyWishlist w)) = 0"
  by (simp_all add: createEmptyWishlist_def split_beta)

lemma updateWishlistMeta_frame [simp]:
  "cart_storage (snd (updateWishlistMeta l w)) = cart_storage w"
  "wishlist_storage (snd (updateWishlistMeta l w)) = wishlist_storage w"
  "userId (snd (updateWishlistMeta l w)) = userId w"
  "remote_get (snd (updateWishlistMeta l w)) = remote_get w"
  "remote_gets (snd (updateWishlistMeta l w)) = remote_gets w"
  "remote_posts (snd (updateWishlistMeta l w)) = remote_posts w"
  "emitted (snd (updateWishlistMeta l w)) = emitted w"
  "wl_items (fst (updateWishlistMeta l w)) = wl_items l"
  "wl_total_items (fst (updateWishlistMeta l w)) = int (length (wl_items l))"
  "wl_updated_at (fst (updateWishlistMeta l w)) = clock w (clock_reads w)"
  by (simp_all add: updateWishlistMeta_def date_now_def)

lemma wl_generateItemId_frame [simp]:
  "cart_storage (snd (wl_generateItemId w)) = cart_storage w"
  "wishlist_storage (snd (wl_generateItemId w)) = wishlist_storage w"
  "userId (snd (wl_generateItemId w)) = userId w"
  "remote_get (snd (wl_generateItemId w)) = remote_get w"
  "remote_gets (snd (wl_generateItemId w)) = remote_gets w"
  "remote_posts (snd (wl_generateItemId w)) = remote_posts w"
  "emitted (snd (wl_generateItemId w)) = emitted w"
  by (simp_all add: wl_generateItemId_def split_beta)

lemma wl_getLocal_frame [simp]:
  "cart_storage (snd (wl_getLocal w)) = cart_storage w"
  "wishlist_storage (snd (wl_getLocal w)) = wishlist_storage w"
  "userId (snd (wl_getLocal w)) = userId w"
  "remote_get (snd (wl_getLocal w)) = remote_get w"
  "remote_gets (snd (wl_getLocal w)) = remote_gets w"
  "remote_posts (snd (wl_getLocal w)) = remote_posts w"
  "emitted (snd (wl_getLocal w)) = emitted w"
  by (simp_all add: wl_getLocal_def split_beta split: option.splits)

lemma userId_truthy_cong [simp]:
  "userId_truthy (snd (date_now w)) = userId_truthy w"
  "userId_truthy (snd (math_random w)) = userId_truthy w"
  "userId_truthy (emit_event ev w) = userId_truthy w"
  "userId_truthy (wishlist_storage_set l w) = userId_truthy w"
  "userId_truthy (cart_storage_set c w) = userId_truthy w"
  "userId_truthy (saveToRemote l w) = userId_truthy w"
  "userId_truthy (snd (getRemoteWishlist w)) = userId_truthy w"
  "userId_truthy (snd (createEmptyWishlist w)) = userId_truthy w"
  "userId_truthy (snd (updateWishlistMeta l' w)) = userId_truthy w"
  "userId_truthy (snd (wl_generateItemId w)) = userId_truthy w"
  "userId_truthy (snd (wl_getLocal w)) = userId_truthy w"
  by (simp_all add: userId_truthy_def)

lemma no_owner_falsy: "userId w = None \<Longrightarrow> \<not> userId_truthy w"
  by (simp add: userId_truthy_def)

text \<open>The read \<^verbatim>\<open>get()\<close>: what the backend's record is when the read finds one, the
  local value otherwise.\<close>

lemma wl_get_storage:
  "wishlist_storage (snd (wl_get w)) = (case fst (getRemoteWishlist w) of Some r \<Rightarrow> snd (storage_set r (wishlist_storage w)) | None \<Rightarrow> wishlist_storage w)"
  by (simp add: wl_get_def split_beta split: option.splits remote_reply.splits)

lemma wl_get_frame [simp]:
  "cart_storage (snd (wl_get w)) = cart_storage w"
  "userId (snd (wl_get w)) = userId w"
  "remote_get (snd (wl_get w)) = remote_get w"
  "remote_gets (snd (wl_get w)) = (if userId_truthy w then Suc (remote_gets w) else remote_gets w)"
  "remote_posts (snd (wl_get w)) = remote_posts w"
  "emitted (snd (wl_get w)) = emitted w"
  "userId_truthy (snd (wl_get w)) = userId_truthy w"
  by (simp_all add: wl_get_def split_beta userId_truthy_def split: option.splits remote_reply.splits)

lemma wl_get_result:
  "fst (wl_get w) =
     (case fst (getRemoteWishlist w) of
        Some r \<Rightarrow> r
      | None \<Rightarrow>
          (case storage_get (wishlist_storage w) of
             Some l \<Rightarrow> l
           | None \<Rightarrow> Snapshot (fst (createEmptyWishlist (snd (getRemoteWishlist w))))))"
  by (simp add: wl_get_def split_beta split: option.splits remote_reply.splits)

lemma wl_get_usable [simp]:
  "available (wishlist_storage (snd (wl_get w))) = available (wishlist_storage w)"
  "writable (wishlist_storage (snd (wl_get w))) = writable (wishlist_storage w)"
  "local_usable (snd (wl_get w)) = local_usable w"
  by (simp_all add: local_usable_def wl_get_storage split: option.splits remote_reply.splits)

lemma wl_hasProduct_eq [simp]:
  "wl_hasProduct productId w =
     (case fst (wl_get w) of
        Malformed v \<Rightarrow> Inl TypeError
      | Snapshot l \<Rightarrow> Inr (has_product productId l), snd (wl_get w))"
  by (simp add: wl_hasProduct_def split_beta split: payload.splits)

lemma createEmptyWishlist_pure: "wishlist_pure (fst (createEmptyWishlist w))"
  by (simp add: wishlist_pure_def)

lemma updateWishlistMeta_pure: "wishlist_pure (fst (updateWishlistMeta l w))"
  by (simp add: wishlist_pure_def)

lemma wl_get_pure: "snapshots_pure w \<Longrightarrow> payload_pure (fst (wl_get w))"
  by (auto simp: wl_get_result storage_get_def snapshots_pure_def createEmptyWishlist_pure
      split: option.splits if_splits remote_reply.splits)

lemma payload_pure_Snapshot: "payload_pure r \<Longrightarrow> \<exists>l. r = Snapshot l \<and> wishlist_pure l"
  by (cases r) simp_all

lemma snapshots_pure_step:
  assumes "snapshots_pure w"
    and "remote_get w' = remote_get w"
    and "item (cart_storage w') = item (cart_storage w) \<or>
         (\<exists>c. item (cart_storage w') = Some c \<and> cart_pure c)"
    and "item (wishlist_storage w') = item (wishlist_storage w) \<or>
         (\<exists>r. item (wishlist_storage w') = Some r \<and> payload_pure r)"
  shows "snapshots_pure w'"
  using assms unfolding snapshots_pure_def by auto

lemma wl_get_snapshots: "snapshots_pure w \<Longrightarrow> snapshots_pure (snd (wl_get w))"
proof (rule snapshots_pure_step)
  assume s: "snapshots_pure w"
  then show "snapshots_pure w" .
  show "remote_get (snd (wl_get w)) = remote_get w" by simp
  show "item (cart_storage (snd (wl_get w))) = item (cart_storage w) \<or>
         (\<exists>c. item (cart_storage (snd (wl_get w))) = Some c \<and> cart_pure c)" by simp
  from s show "item (wishlist_storage (snd (wl_get w))) = item (wishlist_storage w) \<or>
         (\<exists>r. item (wishlist_storage (snd (wl_get w))) = Some r \<and> payload_pure r)"
    by (auto simp: snapshots_pure_def wl_get_storage split: option.splits remote_reply.splits)
qed

text \<open>\<^verbatim>\<open>addItem\<close>, by what its two reads return.\<close>

lemma wl_addItem_frame [simp]:
  "cart_storage (snd (wl_addItem p w)) = cart_storage w"
  "userId (snd (wl_addItem p w)) = userId w"
  "remote_get (snd (wl_addItem p w)) = remote_get w"
  "remote_gets (snd (wl_addItem p w)) = (if userId_truthy w then Suc (Suc (remote_gets w)) else remote_gets w)"
  "userId_truthy (snd (wl_addItem p w)) = userId_truthy w"
  "available (wishlist_storage (snd (wl_addItem p w))) = available (wishlist_storage w)"
  "writable (wishlist_storage (snd (wl_addItem p w))) = writable (wishlist_storage w)"
  by (simp_all add: wl_addItem_def split_beta Let_def split: payload.splits sum.splits)

lemma wl_addItem_throws:
  "fst (wl_get (snd (wl_get w))) = Malformed v \<Longrightarrow>
   wl_addItem p w = (Inl TypeError, snd (wl_get (snd (wl_get w))))"
  by (simp add: wl_addItem_def split_beta)

lemma wl_addItem_keeps:
  "fst (wl_get (snd (wl_get w))) = Snapshot lb \<Longrightarrow> has_product (product_id p) lb \<Longrightarrow>
   wl_addItem p w = (Inr (fst (wl_get w)), snd (wl_get (snd (wl_get w))))"
  by (simp add: wl_addItem_def split_beta)

lemma wl_addItem_fails:
  "fst (wl_get w) = Malformed v \<Longrightarrow> fst (wl_get (snd (wl_get w))) = Snapshot lb \<Longrightarrow>
   \<not> has_product (product_id p) lb \<Longrightarrow>
   fst (wl_addItem p w) = Inl TypeError \<and>
   wishlist_storage (snd (wl_addItem p w)) = wishlist_storage (snd (wl_get (snd (wl_get w)))) \<and>
   emitted (snd (wl_addItem p w)) = emitted w \<and>
   remote_posts (snd (wl_addItem p w)) = remote_posts w"
  by (simp add: wl_addItem_def split_beta Let_def)

lemma wl_addItem_adds:
  "fst (wl_get w) = Snapshot la \<Longrightarrow> fst (wl_get (snd (wl_get w))) = Snapshot lb \<Longrightarrow>
   \<not> has_product (product_id p) lb \<Longrightarrow>
   \<exists>i l. fst (wl_addItem p w) = Inr (Snapshot l) \<and>
     wl_items l = wl_items la @ [i] \<and> wl_product i = p \<and> wishlist_pure l \<and>
     wishlist_storage (snd (wl_addItem p w)) =
       snd (storage_set (Snapshot l) (wishlist_storage (snd (wl_get (snd (wl_get w)))))) \<and>
     emitted (snd (wl_addItem p w)) = emitted w @ [WishlistItemAdded i l] \<and>
     remote_posts (snd (wl_addItem p w)) =
       (case userId w of
          None \<Rightarrow> remote_posts w
        | Some u \<Rightarrow>
            if u = 0 then remote_posts w
            else remote_posts w @
                   [\<lparr>post_owner = u, post_kind = wishlistKind, post_data = Snapshot l\<rparr>])"
  by (simp add: wl_addItem_def split_beta Let_def wishlist_pure_def split: option.splits)

text \<open>\<^verbatim>\<open>removeItem\<close>, by what its read returns.\<close>

lemma wl_removeItem_frame [simp]:
  "cart_storage (snd (wl_removeItem itemId w)) = cart_storage w"
  "userId (snd (wl_removeItem itemId w)) = userId w"
  "remote_get (snd (wl_removeItem itemId w)) = remote_get w"
  "remote_gets (snd (wl_removeItem itemId w)) = (if userId_truthy w then Suc (remote_gets w) else remote_gets w)"
  "userId_truthy (snd (wl_removeItem itemId w)) = userId_truthy w"
  "available (wishlist_storage (snd (wl_removeItem itemId w))) = available (wishlist_storage w)"
  "writable (wishlist_storage (snd (wl_removeItem itemId w))) = writable (wishlist_storage w)"
  by (simp_all add: wl_removeItem_def split_beta Let_def split: payload.splits)

lemma wl_removeItem_throws:
  "fst (wl_get w) = Malformed v \<Longrightarrow> wl_removeItem itemId w = (Inl TypeError, snd (wl_get w))"
  by (simp add: wl_removeItem_def split_beta)

lemma wl_removeItem_removes:
  "fst (wl_get w) = Snapshot la \<Longrightarrow>
   \<exists>l. fst (wl_removeItem itemId w) = Inr (Snapshot l) \<and>
     wl_items l = filter (\<lambda>i. wl_item_id i \<noteq> itemId) (wl_items la) \<and> wishlist_pure l \<and>
     wl_updated_at l = clock (snd (wl_get w)) (clock_reads (snd (wl_get w))) \<and>
     wishlist_storage (snd (wl_removeItem itemId w)) =
       snd (storage_set (Snapshot l) (wishlist_storage (snd (wl_get w)))) \<and>
     emitted (snd (wl_removeItem itemId w)) = emitted w @ [WishlistItemRemoved itemId l] \<and>
     remote_posts (snd (wl_removeItem itemId w)) =
       (case userId w of
          None \<Rightarrow> remote_posts w
        | Some u \<Rightarrow>
            if u = 0 then remote_posts w
            else remote_posts w @
                   [\<lparr>post_owner = u, post_kind = wishlistKind, post_data = Snapshot l\<rparr>])"
  by (simp add: wl_removeItem_def split_beta Let_def wishlist_pure_def split: option.splits)

text \<open>\<^verbatim>\<open>removeProduct\<close>.\<close>

lemma wl_removeProduct_throws:
  "fst (wl_get w) = Malformed v \<Longrightarrow>
   wl_removeProduct productId w = (Inl TypeError, snd (wl_get w))"
  by (simp add: wl_removeProduct_def split_beta)

lemma wl_removeProduct_absent:
  "fst (wl_get w) = Snapshot la \<Longrightarrow> \<not> has_product productId la \<Longrightarrow>
   wl_removeProduct productId w = (Inr (Snapshot la), snd (wl_get w))"
  using find_None_list_ex [of "\<lambda>i. product_id (wl_product i) = productId" "wl_items la"]
  by (simp add: wl_removeProduct_def split_beta has_product_def)

lemma wl_removeProduct_present:
  "fst (wl_get w) = Snapshot la \<Longrightarrow>
   find (\<lambda>i. product_id (wl_product i) = productId) (wl_items la) = Some x \<Longrightarrow>
   wl_removeProduct productId w = wl_removeItem (wl_item_id x) (snd (wl_get w))"
  by (simp add: wl_removeProduct_def split_beta)

lemma wl_removeProduct_frame [simp]:
  "cart_storage (snd (wl_removeProduct productId w)) = cart_storage w"
  "userId (snd (wl_removeProduct productId w)) = userId w"
  "remote_get (snd (wl_removeProduct productId w)) = remote_get w"
  "userId_truthy (snd (wl_removeProduct productId w)) = userId_truthy w"
  "available (wishlist_storage (snd (wl_removeProduct productId w))) = available (wishlist_storage w)"
  "writable (wishlist_storage (snd (wl_removeProduct productId w))) = writable (wishlist_storage w)"
  by (simp_all add: wl_removeProduct_def split_beta split: payload.splits option.splits)

lemma wl_removeProduct_gets:
  "remote_gets (snd (wl_removeProduct productId w)) =
     (if userId_truthy w
      then (case fst (wl_get w) of
              Malformed v \<Rightarrow> Suc (remote_gets w)
            | Snapshot l \<Rightarrow>
                if has_product productId l then Suc (Suc (remote_gets w))
                else Suc (remote_gets w))
      else remote_gets w)"
  by (auto simp: wl_removeProduct_def split_beta has_product_def find_None_list_ex
      split: payload.splits option.splits dest: find_Some_ex)

text \<open>\<^verbatim>\<open>toggleProduct\<close>.\<close>

lemma wl_toggleProduct_frame [simp]:
  "cart_storage (snd (wl_toggleProduct p w)) = cart_storage w"
  "userId (snd (wl_toggleProduct p w)) = userId w"
  "remote_get (snd (wl_toggleProduct p w)) = remote_get w"
  "userId_truthy (snd (wl_toggleProduct p w)) = userId_truthy w"
  "available (wishlist_storage (snd (wl_toggleProduct p w))) = available (wishlist_storage w)"
  "writable (wishlist_storage (snd (wl_toggleProduct p w))) = writable (wishlist_storage w)"
  by (simp_all add: wl_toggleProduct_def split_beta split: payload.splits)

lemma wl_toggleProduct_gets:
  "remote_gets (snd (wl_toggleProduct p w)) =
     (if userId_truthy w
      then (case fst (wl_get w) of
              Malformed v \<Rightarrow> Suc (remote_gets w)
            | Snapshot l \<Rightarrow>
                if has_product (product_id p) l
                then (case fst (wl_get (snd (wl_get w))) of
                        Malformed v \<Rightarrow> Suc (Suc (remote_gets w))
                      | Snapshot l' \<Rightarrow>
                          if has_product (product_id p) l'
                          then Suc (Suc (Suc (remote_gets w)))
                          else Suc (Suc (remote_gets w)))
                else Suc (Suc (Suc (remote_gets w))))
      else remote_gets w)"
  by (simp add: wl_toggleProduct_def split_beta wl_removeProduct_gets split: payload.splits)

text \<open>\<^verbatim>\<open>clear\<close> and \<^verbatim>\<open>sort\<close>.\<close>

lemma wl_clear_frame [simp]:
  "cart_storage (snd (wl_clear w)) = cart_storage w"
  "wishlist_storage (snd (wl_clear w)) = snd (storage_set (Snapshot (fst (wl_clear w))) (wishlist_storage w))"
  "userId (snd (wl_clear w)) = userId w"
  "remote_get (snd (wl_clear w)) = remote_get w"
  "remote_gets (snd (wl_clear w)) = remote_gets w"
  "emitted (snd (wl_clear w)) = emitted w @ [WishlistCleared (fst (wl_clear w))]"
  "userId_truthy (snd (wl_clear w)) = userId_truthy w"
  "wl_items (fst (wl_clear w)) = []"
  by (simp_all add: wl_clear_def split_beta Let_def userId_truthy_def)

lemma wl_clear_pure: "wishlist_pure (fst (wl_clear w))"
  by (simp add: wl_clear_def split_beta Let_def createEmptyWishlist_pure)

lemma wl_sort_emitted [simp]: "emitted (snd (wl_sort reorder w)) = emitted w"
  by (simp add: wl_sort_def split_beta Let_def split: payload.splits)

text \<open>Without a non-zero owner identity nothing is posted.\<close>

lemma local_only_posts:
  assumes "\<not> userId_truthy w"
  shows "remote_posts (snd (wl_addItem p w)) = remote_posts w"
    and "remote_posts (snd (wl_removeItem itemId w)) = remote_posts w"
    and "remote_posts (snd (wl_removeProduct productId w)) = remote_posts w"
    and "remote_posts (snd (wl_toggleProduct p w)) = remote_posts w"
    and "remote_posts (snd (wl_clear w)) = remote_posts w"
proof -
  have r: "remote_posts (snd (wl_removeItem i w')) = remote_posts w'"
    if "\<not> userId_truthy w'" for i and w' :: "'a world"
    using that
    by (simp add: wl_removeItem_def split_beta Let_def userId_truthy_def
        split: option.splits payload.splits)
  have a: "remote_posts (snd (wl_addItem p w')) = remote_posts w'"
    if "\<not> userId_truthy w'" for w' :: "'a world"
    using that
    by (simp add: wl_addItem_def split_beta Let_def userId_truthy_def
        split: option.splits payload.splits)
  have rp: "remote_posts (snd (wl_removeProduct i w')) = remote_posts w'"
    if "\<not> userId_truthy w'" for i and w' :: "'a world"
    using that r [of "snd (wl_get w')"]
    by (simp add: wl_removeProduct_def split_beta split: option.splits payload.splits)
  from assms show "remote_posts (snd (wl_addItem p w)) = remote_posts w" by (rule a)
  from assms show "remote_posts (snd (wl_removeItem itemId w)) = remote_posts w" by (rule r)
  from assms show "remote_posts (snd (wl_removeProduct productId w)) = remote_posts w"
    by (rule rp)
  from assms a [of "snd (wl_get w)"] rp [of "snd (wl_get w)"]
  show "remote_posts (snd (wl_toggleProduct p w)) = remote_posts w"
    by (simp add: wl_toggleProduct_def split_beta split: payload.splits)
  from assms show "remote_posts (snd (wl_clear w)) = remote_posts w"
    by (simp add: wl_clear_def split_beta Let_def userId_truthy_def split: option.splits)
qed

section \<open>The engines and the answers of the remote backend\<close>

text \<open>A step that does not read the backend commutes with replacing the backend's
  answers.\<close>

lemma date_now_remote [simp]:
  "date_now (w\<lparr>remote_get := g\<rparr>) = (fst (date_now w), (snd (date_now w))\<lparr>remote_get := g\<rparr>)"
  by (simp add: date_now_def)

lemma math_random_remote [simp]:
  "math_random (w\<lparr>remote_get := g\<rparr>) =
     (fst (math_random w), (snd (math_random w))\<lparr>remote_get := g\<rparr>)"
  by (simp add: math_random_def)

lemma emit_event_remote [simp]:
  "emit_event ev (w\<lparr>remote_get := g\<rparr>) = (emit_event ev w)\<lparr>remote_get := g\<rparr>"
  by (simp add: emit_event_def)

lemma cart_storage_set_remote [simp]:
  "cart_storage_set c (w\<lparr>remote_get := g\<rparr>) = (cart_storage_set c w)\<lparr>remote_get := g\<rparr>"
  by (simp add: cart_storage_set_def)

lemma wishlist_storage_set_remote [simp]:
  "wishlist_storage_set l (w\<lparr>remote_get := g\<rparr>) = (wishlist_storage_set l w)\<lparr>remote_get := g\<rparr>"
  by (simp add: wishlist_storage_set_def)

lemma saveToRemote_remote [simp]:
  "saveToRemote l (w\<lparr>remote_get := g\<rparr>) = (saveToRemote l w)\<lparr>remote_get := g\<rparr>"
  by (simp add: saveToRemote_def userId_truthy_def split: option.splits)

lemma userId_truthy_remote [simp]: "userId_truthy (w\<lparr>remote_get := g\<rparr>) = userId_truthy w"
  by (simp add: userId_truthy_def)

lemma generateItemId_remote [simp]:
  "generateItemId (w\<lparr>remote_get := g\<rparr>) = (fst (generateItemId w), (snd (generateItemId w))\<lparr>remote_get := g\<rparr>)"
  by (simp add: generateItemId_def split_beta Let_def)

lemma generateCartId_remote [simp]:
  "generateCartId (w\<lparr>remote_get := g\<rparr>) = (fst (generateCartId w), (snd (generateCartId w))\<lparr>remote_get := g\<rparr>)"
  by (simp add: generateCartId_def split_beta Let_def)

lemma createEmptyCart_remote [simp]:
  "createEmptyCart (w\<lparr>remote_get := g\<rparr>) = (fst (createEmptyCart w), (snd (createEmptyCart w))\<lparr>remote_get := g\<rparr>)"
  by (simp add: createEmptyCart_def split_beta Let_def)

lemma updateCartTotals_remote [simp]:
  "updateCartTotals c (w\<lparr>remote_get := g\<rparr>) = (fst (updateCartTotals c w), (snd (updateCartTotals c w))\<lparr>remote_get := g\<rparr>)"
  by (simp add: updateCartTotals_def split_beta Let_def)

lemma cart_get_remote [simp]:
  "cart_get (w\<lparr>remote_get := g\<rparr>) = (fst (cart_get w), (snd (cart_get w))\<lparr>remote_get := g\<rparr>)"
  by (simp add: cart_get_def split_beta Let_def split: option.splits)

lemma cart_addItem_remote [simp]:
  "cart_addItem p q (w\<lparr>remote_get := g\<rparr>) = (fst (cart_addItem p q w), (snd (cart_addItem p q w))\<lparr>remote_get := g\<rparr>)"
  by (simp add: cart_addItem_def split_beta Let_def split: option.splits)

lemma cart_removeItem_remote [simp]:
  "cart_removeItem itemId (w\<lparr>remote_get := g\<rparr>) = (fst (cart_removeItem itemId w), (snd (cart_removeItem itemId w))\<lparr>remote_get := g\<rparr>)"
  by (simp add: cart_removeItem_def split_beta Let_def split: option.splits)

lemma cart_updateItemQuantity_remote [simp]:
  "cart_updateItemQuantity itemId q (w\<lparr>remote_get := g\<rparr>) = (fst (cart_updateItemQuantity itemId q w), (snd (cart_updateItemQuantity itemId q w))\<lparr>remote_get := g\<rparr>)"
  by (simp add: cart_updateItemQuantity_def split_beta Let_def split: option.splits)

lemma cart_clear_remote [simp]:
  "cart_clear (w\<lparr>remote_get := g\<rparr>) = (fst (cart_clear w), (snd (cart_clear w))\<lparr>remote_get := g\<rparr>)"
  by (simp add: cart_clear_def split_beta Let_def)

lemma createEmptyWishlist_remote [simp]:
  "createEmptyWishlist (w\<lparr>remote_get := g\<rparr>) = (fst (createEmptyWishlist w), (snd (createEmptyWishlist w))\<lparr>remote_get := g\<rparr>)"
  by (simp add: createEmptyWishlist_def split_beta Let_def)

lemma updateWishlistMeta_remote [simp]:
  "updateWishlistMeta l (w\<lparr>remote_get := g\<rparr>) = (fst (updateWishlistMeta l w), (snd (updateWishlistMeta l w))\<lparr>remote_get := g\<rparr>)"
  by (simp add: updateWishlistMeta_def split_beta Let_def)

lemma wl_generateItemId_remote [simp]:
  "wl_generateItemId (w\<lparr>remote_get := g\<rparr>) = (fst (wl_generateItemId w), (snd (wl_generateItemId w))\<lparr>remote_get := g\<rparr>)"
  by (simp add: wl_generateItemId_def split_beta Let_def)

lemma wl_clear_remote [simp]:
  "wl_clear (w\<lparr>remote_get := g\<rparr>) = (fst (wl_clear w), (snd (wl_clear w))\<lparr>remote_get := g\<rparr>)"
  by (simp add: wl_clear_def split_beta Let_def)

lemma getRemoteWishlist_remote:
  "\<not> userId_truthy w \<Longrightarrow> getRemoteWishlist (w\<lparr>remote_get := g\<rparr>) = (fst (getRemoteWishlist w), (snd (getRemoteWishlist w))\<lparr>remote_get := g\<rparr>)"
  by (simp add: getRemoteWishlist_def split_beta Let_def)

lemma wl_get_remote:
  "\<not> userId_truthy w \<Longrightarrow> wl_get (w\<lparr>remote_get := g\<rparr>) = (fst (wl_get w), (snd (wl_get w))\<lparr>remote_get := g\<rparr>)"
  by (simp add: wl_get_def getRemoteWishlist_def split_beta Let_def split: option.splits)

lemma wl_addItem_remote:
  "\<not> userId_truthy w \<Longrightarrow> wl_addItem p (w\<lparr>remote_get := g\<rparr>) = (fst (wl_addItem p w), (snd (wl_addItem p w))\<lparr>remote_get := g\<rparr>)"
  by (simp add: wl_addItem_def wl_get_remote split_beta Let_def split: payload.splits)

lemma wl_removeItem_remote:
  "\<not> userId_truthy w \<Longrightarrow> wl_removeItem itemId (w\<lparr>remote_get := g\<rparr>) = (fst (wl_removeItem itemId w), (snd (wl_removeItem itemId w))\<lparr>remote_get := g\<rparr>)"
  by (simp add: wl_removeItem_def wl_get_remote split_beta Let_def split: payload.splits)

lemma wl_removeProduct_remote:
  "\<not> userId_truthy w \<Longrightarrow> wl_removeProduct productId (w\<lparr>remote_get := g\<rparr>) = (fst (wl_removeProduct productId w), (snd (wl_removeProduct productId w))\<lparr>remote_get := g\<rparr>)"
  by (simp add: wl_removeProduct_def wl_get_remote wl_removeItem_remote split_beta Let_def
      split: option.splits payload.splits)

lemma wl_toggleProduct_remote:
  "\<not> userId_truthy w \<Longrightarrow> wl_toggleProduct p (w\<lparr>remote_get := g\<rparr>) = (fst (wl_toggleProduct p w), (snd (wl_toggleProduct p w))\<lparr>remote_get := g\<rparr>)"
  by (simp add: wl_toggleProduct_def wl_get_remote wl_addItem_remote wl_removeProduct_remote
      split_beta Let_def split: payload.splits sum.splits)

section \<open>Pure snapshots stay pure\<close>

lemma wl_addItem_pure:
  assumes s: "snapshots_pure w"
  shows "\<exists>r. fst (wl_addItem p w) = Inr r \<and> payload_pure r"
    and "snapshots_pure (snd (wl_addItem p w))"
proof -
  let ?w1 = "snd (wl_get w)"
  let ?w2 = "snd (wl_get ?w1)"
  from s have s1: "snapshots_pure ?w1" by (rule wl_get_snapshots)
  then have s2: "snapshots_pure ?w2" by (rule wl_get_snapshots)
  from payload_pure_Snapshot [OF wl_get_pure [OF s]] obtain la where
    la: "fst (wl_get w) = Snapshot la" "wishlist_pure la" by blast
  from payload_pure_Snapshot [OF wl_get_pure [OF s1]] obtain lb where
    lb: "fst (wl_get ?w1) = Snapshot lb" by blast
  have "(\<exists>r. fst (wl_addItem p w) = Inr r \<and> payload_pure r) \<and>
      snapshots_pure (snd (wl_addItem p w))"
  proof (cases "has_product (product_id p) lb")
    case True
    from wl_addItem_keeps [OF lb True] la s2 show ?thesis by simp
  next
    case False
    from wl_addItem_adds [OF la(1) lb False] obtain i l where
      r: "fst (wl_addItem p w) = Inr (Snapshot l)" and p: "wishlist_pure l"
      and st: "wishlist_storage (snd (wl_addItem p w)) =
                 snd (storage_set (Snapshot l) (wishlist_storage ?w2))"
      by blast
    have "snapshots_pure (snd (wl_addItem p w))"
      using s2
    proof (rule snapshots_pure_step)
      show "remote_get (snd (wl_addItem p w)) = remote_get ?w2" by simp
      show "item (cart_storage (snd (wl_addItem p w))) = item (cart_storage ?w2) \<or>
          (\<exists>c. item (cart_storage (snd (wl_addItem p w))) = Some c \<and> cart_pure c)" by simp
      from p show "item (wishlist_storage (snd (wl_addItem p w))) = item (wishlist_storage ?w2) \<or>
          (\<exists>r. item (wishlist_storage (snd (wl_addItem p w))) = Some r \<and> payload_pure r)"
        by (simp add: st)
    qed
    with r p show ?thesis by simp
  qed
  then show "\<exists>r. fst (wl_addItem p w) = Inr r \<and> payload_pure r"
    and "snapshots_pure (snd (wl_addItem p w))" by simp_all
qed

lemma wl_removeItem_pure:
  assumes s: "snapshots_pure w"
  shows "\<exists>r. fst (wl_removeItem itemId w) = Inr r \<and> payload_pure r"
    and "snapshots_pure (snd (wl_removeItem itemId w))"
proof -
  let ?w1 = "snd (wl_get w)"
  from s have s1: "snapshots_pure ?w1" by (rule wl_get_snapshots)
  from payload_pure_Snapshot [OF wl_get_pure [OF s]] obtain la where
    la: "fst (wl_get w) = Snapshot la" by blast
  from wl_removeItem_removes [OF la, of itemId] obtain l where
    r: "fst (wl_removeItem itemId w) = Inr (Snapshot l)" and p: "wishlist_pure l"
    and st: "wishlist_storage (snd (wl_removeItem itemId w)) =
               snd (storage_set (Snapshot l) (wishlist_storage ?w1))"
    by blast
  from r p show "\<exists>r. fst (wl_removeItem itemId w) = Inr r \<and> payload_pure r" by simp
  show "snapshots_pure (snd (wl_removeItem itemId w))"
    using s1
  proof (rule snapshots_pure_step)
    show "remote_get (snd (wl_removeItem itemId w)) = remote_get ?w1" by simp
    show "item (cart_storage (snd (wl_removeItem itemId w))) = item (cart_storage ?w1) \<or>
        (\<exists>c. item (cart_storage (snd (wl_removeItem itemId w))) = Some c \<and> cart_pure c)"
      by simp
    from p show "item (wishlist_storage (snd (wl_removeItem itemId w))) =
          item (wishlist_storage ?w1) \<or>
        (\<exists>r. item (wishlist_storage (snd (wl_removeItem itemId w))) = Some r \<and> payload_pure r)"
      by (simp add: st)
  qed
qed

lemma apply_mutation_pure:
  assumes s: "snapshots_pure w"
  shows "returns_pure (fst (apply_mutation m w)) \<and> snapshots_pure (snd (apply_mutation m w))"
proof (cases m)
  case (CartAddItem p q)
  have "snapshots_pure (snd (cart_addItem p q w))"
    by (rule snapshots_pure_step [OF s]) (simp_all add: cart_addItem_pure)
  with CartAddItem show ?thesis by (simp add: split_beta cart_addItem_pure)
next
  case (CartRemoveItem i)
  have "snapshots_pure (snd (cart_removeItem i w))"
    by (rule snapshots_pure_step [OF s]) (simp_all add: cart_removeItem_pure [OF s])
  with CartRemoveItem show ?thesis by (simp add: split_beta cart_removeItem_pure [OF s])
next
  case (CartUpdateItemQuantity i q)
  have "snapshots_pure (snd (cart_updateItemQuantity i q w))"
    by (rule snapshots_pure_step [OF s]) (simp_all add: cart_updateItemQuantity_pure [OF s])
  with CartUpdateItemQuantity show ?thesis
    by (simp add: split_beta cart_updateItemQuantity_pure [OF s])
next
  case CartClear
  have "snapshots_pure (snd (cart_clear w))"
    by (rule snapshots_pure_step [OF s]) (simp_all add: cart_clear_pure)
  with CartClear show ?thesis by (simp add: split_beta cart_clear_pure)
next
  case (WishlistAddItem p)
  from wl_addItem_pure [OF s, of p] WishlistAddItem show ?thesis
    by (auto simp: split_beta)
next
  case (WishlistRemoveItem i)
  from wl_removeItem_pure [OF s, of i] WishlistRemoveItem show ?thesis
    by (auto simp: split_beta)
next
  case WishlistClear
  have "snapshots_pure (snd (wl_clear w))"
    by (rule snapshots_pure_step [OF s]) (simp_all add: wl_clear_pure)
  with WishlistClear show ?thesis by (simp add: split_beta wl_clear_pure)
qed

lemma run_pure:
  "snapshots_pure w \<Longrightarrow>
   list_all returns_pure (fst (run ms w)) \<and> snapshots_pure (snd (run ms w))"
proof (induction ms arbitrary: w)
  case Nil
  then show ?case by simp
next
  case (Cons m ms)
  from apply_mutation_pure [OF Cons.prems, of m]
  have a: "returns_pure (fst (apply_mutation m w))"
    and s: "snapshots_pure (snd (apply_mutation m w))" by simp_all
  from Cons.IH [OF s] a show ?case by (simp add: split_beta)
qed


section \<open>A toggle whose three reads agree\<close>

lemma holds_Snapshot: "holds xs r \<Longrightarrow> \<exists>l. r = Snapshot l \<and> wl_items l = xs"
  by (cases r) simp_all

lemma sees_reads:
  assumes "sees w xs"
  shows "\<exists>la lb lc.
     fst (wl_get w) = Snapshot la \<and> wl_items la = xs \<and>
     fst (wl_get (snd (wl_get w))) = Snapshot lb \<and> wl_items lb = xs \<and>
     fst (wl_get (snd (wl_get (snd (wl_get w))))) = Snapshot lc \<and> wl_items lc = xs"
proof -
  from assms have "holds xs (fst (wl_get w))"
    and "holds xs (fst (wl_get (snd (wl_get w))))"
    and "holds xs (fst (wl_get (snd (wl_get (snd (wl_get w))))))"
    by (simp_all add: sees_def three_reads_def split_beta)
  then show ?thesis by (blast dest: holds_Snapshot)
qed

lemma has_product_items:
  "has_product (product_id p) l = (occurrences p (wl_items l) \<noteq> 0)"
  by (simp add: has_product_def occurrences_def list_ex_iff filter_empty_conv)

lemma toggle_absent:
  assumes s: "sees w xs" and a: "occurrences p xs = 0"
  shows "\<exists>i l. fst (wl_toggleProduct p w) = Inr (Snapshot l, True) \<and>
     wl_items l = xs @ [i] \<and> wl_product i = p \<and>
     emitted (snd (wl_toggleProduct p w)) = emitted w @ [WishlistItemAdded i l] \<and>
     wishlist_storage (snd (wl_toggleProduct p w)) =
       snd (storage_set (Snapshot l)
              (wishlist_storage (snd (wl_get (snd (wl_get (snd (wl_get w))))))))"
proof -
  let ?w1 = "snd (wl_get w)"
  from sees_reads [OF s] obtain la lb lc where
    la: "fst (wl_get w) = Snapshot la" "wl_items la = xs"
    and lb: "fst (wl_get ?w1) = Snapshot lb" "wl_items lb = xs"
    and lc: "fst (wl_get (snd (wl_get ?w1))) = Snapshot lc" "wl_items lc = xs"
    by blast
  from a la have ha: "\<not> has_product (product_id p) la" by (simp add: has_product_items)
  from a lc have hc: "\<not> has_product (product_id p) lc" by (simp add: has_product_items)
  from wl_addItem_adds [OF lb(1) lc(1) hc] obtain i l where
    r: "fst (wl_addItem p ?w1) = Inr (Snapshot l)"
    and i: "wl_items l = wl_items lb @ [i]" "wl_product i = p"
    and st: "wishlist_storage (snd (wl_addItem p ?w1)) =
               snd (storage_set (Snapshot l) (wishlist_storage (snd (wl_get (snd (wl_get ?w1))))))"
    and e: "emitted (snd (wl_addItem p ?w1)) = emitted ?w1 @ [WishlistItemAdded i l]"
    by blast
  have t: "wl_toggleProduct p w = (Inr (Snapshot l, True), snd (wl_addItem p ?w1))"
    using la ha r by (simp add: wl_toggleProduct_def split_beta)
  from t i lb st e show ?thesis by simp
qed

lemma toggle_present:
  assumes s: "sees w xs" and a: "occurrences p xs \<noteq> 0"
  shows "\<exists>x l. x \<in> set xs \<and> product_id (wl_product x) = product_id p \<and>
     fst (wl_toggleProduct p w) = Inr (Snapshot l, False) \<and>
     wl_items l = filter (\<lambda>i. wl_item_id i \<noteq> wl_item_id x) xs \<and>
     emitted (snd (wl_toggleProduct p w)) = emitted w @ [WishlistItemRemoved (wl_item_id x) l] \<and>
     wishlist_storage (snd (wl_toggleProduct p w)) =
       snd (storage_set (Snapshot l)
              (wishlist_storage (snd (wl_get (snd (wl_get (snd (wl_get w))))))))"
proof -
  let ?w1 = "snd (wl_get w)"
  let ?w2 = "snd (wl_get ?w1)"
  from sees_reads [OF s] obtain la lb lc where
    la: "fst (wl_get w) = Snapshot la" "wl_items la = xs"
    and lb: "fst (wl_get ?w1) = Snapshot lb" "wl_items lb = xs"
    and lc: "fst (wl_get ?w2) = Snapshot lc" "wl_items lc = xs"
    by blast
  from a la have ha: "has_product (product_id p) la" by (simp add: has_product_items)
  from a have "list_ex (\<lambda>i. product_id (wl_product i) = product_id p) xs"
    by (simp add: occurrences_def list_ex_iff filter_empty_conv)
  from find_first [OF this] obtain x where
    f: "find (\<lambda>i. product_id (wl_product i) = product_id p) xs = Some x"
    and x: "x \<in> set xs" "product_id (wl_product x) = product_id p"
    by blast
  from f lb have f': "find (\<lambda>i. product_id (wl_product i) = product_id p) (wl_items lb) = Some x"
    by simp
  have rp: "wl_removeProduct (product_id p) ?w1 = wl_removeItem (wl_item_id x) ?w2"
    using lb(1) f' by (rule wl_removeProduct_present)
  from wl_removeItem_removes [OF lc(1), of "wl_item_id x"] obtain l where
    r: "fst (wl_removeItem (wl_item_id x) ?w2) = Inr (Snapshot l)"
    and i: "wl_items l = filter (\<lambda>i. wl_item_id i \<noteq> wl_item_id x) (wl_items lc)"
    and st: "wishlist_storage (snd (wl_removeItem (wl_item_id x) ?w2)) =
               snd (storage_set (Snapshot l) (wishlist_storage (snd (wl_get ?w2))))"
    and e: "emitted (snd (wl_removeItem (wl_item_id x) ?w2)) =
              emitted ?w2 @ [WishlistItemRemoved (wl_item_id x) l]"
    by blast
  have t: "wl_toggleProduct p w =
      (Inr (Snapshot l, False), snd (wl_removeItem (wl_item_id x) ?w2))"
    using la ha r rp by (simp add: wl_toggleProduct_def split_beta)
  from i lc have i': "wl_items l = filter (\<lambda>i. wl_item_id i \<noteq> wl_item_id x) xs" by simp
  from t st e have "fst (wl_toggleProduct p w) = Inr (Snapshot l, False) \<and>
     emitted (snd (wl_toggleProduct p w)) = emitted w @ [WishlistItemRemoved (wl_item_id x) l] \<and>
     wishlist_storage (snd (wl_toggleProduct p w)) =
       snd (storage_set (Snapshot l)
              (wishlist_storage (snd (wl_get (snd (wl_get (snd (wl_get w))))))))"
    by simp
  with x i' show ?thesis by blast
qed

lemma occurrences_filter_unique:
  assumes "occurrences p xs = 1" and "x \<in> set xs"
    and "product_id (wl_product x) = product_id p"
  shows "occurrences p (filter (\<lambda>i. wl_item_id i \<noteq> wl_item_id x) xs) = 0"
proof -
  let ?Q = "\<lambda>i. product_id (wl_product i) = product_id p"
  from assms(1) obtain z where z: "filter ?Q xs = [z]"
    by (auto simp: occurrences_def length_Suc_conv)
  from assms(2,3) have "x \<in> set (filter ?Q xs)" by simp
  with z have xz: "x = z" by simp
  have "\<forall>y \<in> set xs. ?Q y \<longrightarrow> y = x"
  proof (intro ballI impI)
    fix y assume "y \<in> set xs" "?Q y"
    then have "y \<in> set (filter ?Q xs)" by simp
    with z xz show "y = x" by simp
  qed
  then show ?thesis
    by (auto simp: occurrences_def filter_empty_conv)
qed

lemma occurrences_filter_distinct:
  assumes "distinct (map (\<lambda>i. product_id (wl_product i)) xs)" and "x \<in> set xs"
    and "product_id (wl_product x) = product_id p"
  shows "occurrences p (filter (\<lambda>i. wl_item_id i \<noteq> wl_item_id x) xs) = 0"
proof -
  from assms(1) have "inj_on (\<lambda>i. product_id (wl_product i)) (set xs)"
    by (simp add: distinct_map)
  with assms(2,3) have "\<forall>y \<in> set xs. product_id (wl_product y) = product_id p \<longrightarrow> y = x"
    unfolding inj_on_def by metis
  then show ?thesis
    by (auto simp: occurrences_def filter_empty_conv)
qed

text \<open>While no remote read finds a record, the reads see what the local store holds,
  and a usable store holds what a toggle returned.\<close>

lemma no_owner_silent: "userId w = None \<Longrightarrow> remote_silent w"
  by (simp add: remote_silent_def userId_truthy_def)

lemma silent_get:
  assumes "remote_silent w" and "stored w xs"
  shows "holds xs (fst (wl_get w))" and "stored (snd (wl_get w)) xs"
    and "remote_silent (snd (wl_get w))"
proof -
  from assms(1) have n: "fst (getRemoteWishlist w) = None"
    by (auto simp: remote_silent_def split: remote_reply.splits)
  from n assms(2) show "holds xs (fst (wl_get w))"
    by (simp add: wl_get_result stored_def split: option.splits)
  from n assms(2) show "stored (snd (wl_get w)) xs"
    by (simp add: wl_get_storage stored_def)
  from assms(1) show "remote_silent (snd (wl_get w))"
    by (simp add: remote_silent_def)
qed

lemma silent_sees:
  assumes n: "remote_silent w" and s: "stored w xs"
  shows "sees w xs"
proof -
  note a = silent_get [OF n s]
  note b = silent_get [OF a(3) a(2)]
  note c = silent_get [OF b(3) b(2)]
  from a(1) b(1) c(1) show ?thesis
    by (simp add: sees_def three_reads_def split_beta)
qed


section \<open>The claims about the collection engines\<close>

lemmas worlds =
  fresh_world_def stocked_world_def offline_world_def synced_world_def followed_world_def
  garbled_world_def miscounted_world_def stale_world_def no_storage_world_def
  duplicate_world_def answering_def unreachable_def following_def garbled_def miscounting_def

lemmas stock =
  cart_two_def cart_stale_def wishlist_two_def wishlist_three_def wishlist_remote_def
  wishlist_posted_def wishlist_twice_def lamp_def mug_def kettle_def

lemma snapshots_pure_stocked: "snapshots_pure stocked_world"
  by (simp add: snapshots_pure_def worlds stock cart_pure_def wishlist_pure_def entry_sum_def)

lemma snapshots_pure_fresh: "snapshots_pure fresh_world"
  by (simp add: snapshots_pure_def fresh_world_def)




text \<open>
  C2 (as amended). The wishlist's \<^verbatim>\<open>get()\<close>: with an owner identity other than
  \<open>0\<close> it first issues one remote read. When the read returns a record, its data,
  which is not validated and need not have the shape of a wishlist, is what the call
  returns, and it is written to the local store with \<^verbatim>\<open>storage.set\<close>, replacing what
  was there (it is then what the store holds whenever the store accepts the write). When
  the read throws or returns no record, and when no owner identity is configured, the
  local store is left as it is and its value is returned, an empty wishlist when it holds
  none. The cart's \<^verbatim>\<open>get()\<close> never reads the backend: it returns the local value, an
  empty cart when there is none.
\<close>

theorem get_read_contract:
  "(userId_truthy w \<longrightarrow> remote_gets (snd (wl_get w)) = Suc (remote_gets w)) \<and>
   (userId_truthy w \<and> remote_get w (remote_gets w) = Found r \<longrightarrow>
      fst (wl_get w) = r \<and>
      wishlist_storage (snd (wl_get w)) = snd (storage_set r (wishlist_storage w)) \<and>
      (available (wishlist_storage w) \<and> writable (wishlist_storage w) \<longrightarrow>
         storage_get (wishlist_storage (snd (wl_get w))) = Some r)) \<and>
   (userId w = None \<or>
    userId_truthy w \<and>
      (remote_get w (remote_gets w) = Throws \<or> remote_get w (remote_gets w) = NoRecord) \<longrightarrow>
      wishlist_storage (snd (wl_get w)) = wishlist_storage w \<and>
      (\<forall>l. storage_get (wishlist_storage w) = Some l \<longrightarrow> fst (wl_get w) = l) \<and>
      (storage_get (wishlist_storage w) = None \<longrightarrow>
         (\<exists>l. fst (wl_get w) = Snapshot l \<and> wl_items l = [] \<and> wl_total_items l = 0))) \<and>
   (userId w = None \<longrightarrow> remote_gets (snd (wl_get w)) = remote_gets w) \<and>
   cart_storage (snd (cart_get w)) = cart_storage w \<and>
   remote_gets (snd (cart_get w)) = remote_gets w \<and>
   (\<forall>c. storage_get (cart_storage w) = Some c \<longrightarrow> fst (cart_get w) = c) \<and>
   (storage_get (cart_storage w) = None \<longrightarrow>
      items (fst (cart_get w)) = [] \<and> subtotal (fst (cart_get w)) = 0 \<and>
      total_items (fst (cart_get w)) = 0)"
  by (auto simp: wl_get_result wl_get_storage cart_get_result no_owner_falsy)

theorem get_read_contract_witness:
  "fst (wl_get synced_world) = Snapshot wishlist_remote \<and>
   remote_gets (snd (wl_get synced_world)) = 1 \<and>
   storage_get (wishlist_storage (snd (wl_get synced_world))) = Some (Snapshot wishlist_remote) \<and>
   fst (wl_get offline_world) = Snapshot wishlist_two \<and>
   remote_gets (snd (wl_get offline_world)) = 1 \<and>
   wishlist_storage (snd (wl_get offline_world)) = wishlist_storage offline_world \<and>
   fst (wl_get stocked_world) = Snapshot wishlist_two \<and>
   remote_gets (snd (wl_get stocked_world)) = 0 \<and>
   length (wl_items wishlist_two) = 2 \<and>
   fst (cart_get offline_world) = cart_two"
proof -
  have a: "userId_truthy synced_world \<and>
      remote_get synced_world (remote_gets synced_world) = Found (Snapshot wishlist_remote)"
    by (simp add: userId_truthy_def worlds)
  have b: "available (wishlist_storage synced_world) \<and> writable (wishlist_storage synced_world)"
    by (simp add: worlds)
  have c: "userId_truthy offline_world \<and>
      remote_get offline_world (remote_gets offline_world) = Throws"
    by (simp add: userId_truthy_def worlds)
  have d: "storage_get (wishlist_storage offline_world) = Some (Snapshot wishlist_two)"
          "storage_get (cart_storage offline_world) = Some cart_two"
          "storage_get (wishlist_storage stocked_world) = Some (Snapshot wishlist_two)"
    by (simp_all add: storage_get_def worlds)
  have e: "length (wl_items wishlist_two) = 2"
    by (simp add: wishlist_two_def)
  have n: "userId stocked_world = None"
    by (simp add: worlds)
  have z: "remote_gets synced_world = 0" "remote_gets offline_world = 0"
      "remote_gets stocked_world = 0"
    by (simp_all add: worlds)
  from get_read_contract [of synced_world "Snapshot wishlist_remote"] a b z
  have s: "fst (wl_get synced_world) = Snapshot wishlist_remote \<and>
     remote_gets (snd (wl_get synced_world)) = 1 \<and>
     storage_get (wishlist_storage (snd (wl_get synced_world))) = Some (Snapshot wishlist_remote)"
    by simp
  from get_read_contract [of offline_world] c d z
  have t: "fst (wl_get offline_world) = Snapshot wishlist_two \<and>
     remote_gets (snd (wl_get offline_world)) = 1 \<and>
     wishlist_storage (snd (wl_get offline_world)) = wishlist_storage offline_world \<and>
     fst (cart_get offline_world) = cart_two"
    by simp
  from get_read_contract [of stocked_world] n d z
  have u: "fst (wl_get stocked_world) = Snapshot wishlist_two \<and>
     remote_gets (snd (wl_get stocked_world)) = 0"
    by simp
  from s t u e show ?thesis by simp
qed

text \<open>
  C2 (as stated) fails in two places. The cart's \<^verbatim>\<open>get()\<close> of a signed-in shopper
  issues no remote read at all. And when the backend's record is not a wishlist
  (here the empty object), the wishlist's \<^verbatim>\<open>get()\<close> does not fall back to the two
  entries of the local store: it returns the record and writes it over them.
\<close>

theorem get_read_contract_counterexample:
  "userId synced_world = Some 42 \<and>
   remote_gets (snd (cart_get synced_world)) = remote_gets synced_world \<and>
   fst (cart_get synced_world) = cart_two \<and>
   userId garbled_world = Some 42 \<and>
   remote_get garbled_world (remote_gets garbled_world) = Found (Malformed ''{}'') \<and>
   storage_get (wishlist_storage garbled_world) = Some (Snapshot wishlist_two) \<and>
   fst (wl_get garbled_world) = Malformed ''{}'' \<and>
   storage_get (wishlist_storage (snd (wl_get garbled_world))) = Some (Malformed ''{}'')"
  by (simp add: wl_get_result wl_get_storage cart_get_result userId_truthy_def storage_get_def
      worlds)




text \<open>
  C4 fails on the wishlist. In a store that holds \<open>wishlist_two\<close> (last modified at
  \<open>5\<close>), \<^verbatim>\<open>removeItem\<close> of an identifier that no entry has returns the entries
  unchanged but a new last-modified time, writes that collection to the local store and
  publishes \<^verbatim>\<open>wishlist:item:removed\<close>. The cart's \<^verbatim>\<open>removeItem\<close> in the same
  situation returns the stored cart and changes neither the store nor the events.
\<close>

theorem wishlist_remove_absent_touches:
  "\<not> list_ex (\<lambda>x. wl_item_id x = ''ghost'') (wl_items wishlist_two) \<and>
   fst (wl_removeItem ''ghost'' stocked_world) =
     Inr (Snapshot (wishlist_two\<lparr>wl_updated_at := 10\<rparr>)) \<and>
   fst (wl_removeItem ''ghost'' stocked_world) \<noteq> Inr (Snapshot wishlist_two) \<and>
   item (wishlist_storage stocked_world) = Some (Snapshot wishlist_two) \<and>
   item (wishlist_storage (snd (wl_removeItem ''ghost'' stocked_world))) =
     Some (Snapshot (wishlist_two\<lparr>wl_updated_at := 10\<rparr>)) \<and>
   emitted (snd (wl_removeItem ''ghost'' stocked_world)) =
     [WishlistItemRemoved ''ghost'' (wishlist_two\<lparr>wl_updated_at := 10\<rparr>)] \<and>
   fst (cart_removeItem ''ghost'' stocked_world) = cart_two \<and>
   cart_storage (snd (cart_removeItem ''ghost'' stocked_world)) = cart_storage stocked_world \<and>
   emitted (snd (cart_removeItem ''ghost'' stocked_world)) = []"
proof -
  have g: "wl_get stocked_world = (Snapshot wishlist_two, stocked_world)"
    by (simp add: wl_get_def getRemoteWishlist_def userId_truthy_def storage_get_def
        worlds)
  have r: "fst (wl_removeItem ''ghost'' stocked_world) =
      Inr (Snapshot (wishlist_two\<lparr>wl_updated_at := 10\<rparr>))"
    by (simp add: wl_removeItem_def g Let_def split_beta updateWishlistMeta_def date_now_def)
       (simp add: wishlist_two_def worlds)
  have c: "fst (cart_get stocked_world) = cart_two"
    by (simp add: cart_get_result storage_get_def stocked_world_def)
  have a: "\<not> list_ex (\<lambda>x. item_id x = ''ghost'') (items (fst (cart_get stocked_world)))"
    by (simp add: c cart_two_def)
  have cr: "cart_removeItem ''ghost'' stocked_world = cart_get stocked_world"
    using a by (rule cart_removeItem_absent)
  have e: "emitted stocked_world = []"
    by (simp add: worlds)
  have i: "item (wishlist_storage stocked_world) = Some (Snapshot wishlist_two)"
          "available (wishlist_storage stocked_world)" "writable (wishlist_storage stocked_world)"
    by (simp_all add: worlds)
  have n: "\<not> list_ex (\<lambda>x. wl_item_id x = ''ghost'') (wl_items wishlist_two)"
          "wishlist_two\<lparr>wl_updated_at := 10\<rparr> \<noteq> wishlist_two"
    by (simp_all add: wishlist_two_def)
  from wl_removeItem_removes [of stocked_world wishlist_two "''ghost''"] g r
  have x: "wishlist_storage (snd (wl_removeItem ''ghost'' stocked_world)) =
       snd (storage_set (Snapshot (wishlist_two\<lparr>wl_updated_at := 10\<rparr>))
              (wishlist_storage stocked_world)) \<and>
     emitted (snd (wl_removeItem ''ghost'' stocked_world)) =
       emitted stocked_world @
         [WishlistItemRemoved ''ghost'' (wishlist_two\<lparr>wl_updated_at := 10\<rparr>)]"
    by auto
  from x i have s: "item (wishlist_storage (snd (wl_removeItem ''ghost'' stocked_world))) =
     Some (Snapshot (wishlist_two\<lparr>wl_updated_at := 10\<rparr>))"
    by simp
  from x e have m: "emitted (snd (wl_removeItem ''ghost'' stocked_world)) =
     [WishlistItemRemoved ''ghost'' (wishlist_two\<lparr>wl_updated_at := 10\<rparr>)]"
    by simp
  from n r i s m c cr e show ?thesis by simp
qed

text \<open>
  C5 (as amended). Let the three reads that a toggle makes through \<^verbatim>\<open>get()\<close> see a
  wishlist with the same entries: the backend's record, for a signed-in shopper whose
  backend answers, the local value otherwise. Then the toggle reports an addition if the
  entries do not hold the product and a removal if they do, and it publishes exactly one
  event, an addition or a removal as reported. If the product was absent, the wishlist
  returned holds it exactly once; if it was present once, the wishlist returned does not
  hold it. If in addition the reads of the next toggle see the entries that the first
  one returned (as they do when no remote read finds a record and the local store is
  usable, and with a backend that returns what was posted to it), the next toggle reports the
  opposite and returns a wishlist that holds the product as often as the entries did
  before the first, so that two toggles restore the membership.
\<close>

theorem toggle_exclusive:
  assumes "sees w xs"
  shows "\<exists>l. fst (wl_toggleProduct p w) = Inr (Snapshot l, occurrences p xs = 0) \<and>
     (occurrences p xs \<le> 1 \<longrightarrow> occurrences p (wl_items l) = 1 - occurrences p xs) \<and>
     (\<exists>e. emitted (snd (wl_toggleProduct p w)) = emitted w @ [e] \<and>
        topic_of e = (if occurrences p xs = 0 then ''wishlist:item:added''
                      else ''wishlist:item:removed'')) \<and>
     (local_usable w \<longrightarrow>
        storage_get (wishlist_storage (snd (wl_toggleProduct p w))) = Some (Snapshot l)) \<and>
     (remote_silent w \<and> local_usable w \<longrightarrow> sees (snd (wl_toggleProduct p w)) (wl_items l)) \<and>
     (sees (snd (wl_toggleProduct p w)) (wl_items l) \<and> occurrences p xs \<le> 1 \<longrightarrow>
        (\<exists>l'. fst (wl_toggleProduct p (snd (wl_toggleProduct p w))) =
                 Inr (Snapshot l', occurrences p xs \<noteq> 0) \<and>
           occurrences p (wl_items l') = occurrences p xs))"
proof -
  let ?t1 = "wl_toggleProduct p w"
  let ?w3 = "snd (wl_get (snd (wl_get (snd (wl_get w)))))"
  have step: "\<exists>l. fst ?t1 = Inr (Snapshot l, occurrences p xs = 0) \<and>
     (occurrences p xs \<le> 1 \<longrightarrow> occurrences p (wl_items l) = 1 - occurrences p xs) \<and>
     (\<exists>e. emitted (snd ?t1) = emitted w @ [e] \<and>
        topic_of e = (if occurrences p xs = 0 then ''wishlist:item:added''
                      else ''wishlist:item:removed'')) \<and>
     wishlist_storage (snd ?t1) = snd (storage_set (Snapshot l) (wishlist_storage ?w3))"
  proof (cases "occurrences p xs = 0")
    case True
    from toggle_absent [OF assms True] obtain i l where
      r: "fst ?t1 = Inr (Snapshot l, True)" and i: "wl_items l = xs @ [i]" "wl_product i = p"
      and e: "emitted (snd ?t1) = emitted w @ [WishlistItemAdded i l]"
      and st: "wishlist_storage (snd ?t1) =
                 snd (storage_set (Snapshot l) (wishlist_storage ?w3))"
      by blast
    from i True have "occurrences p (wl_items l) = 1"
      by (simp add: occurrences_def)
    with r e st True show ?thesis by simp
  next
    case False
    from toggle_present [OF assms False] obtain x l where
      x: "x \<in> set xs" "product_id (wl_product x) = product_id p"
      and r: "fst ?t1 = Inr (Snapshot l, False)"
      and i: "wl_items l = filter (\<lambda>i. wl_item_id i \<noteq> wl_item_id x) xs"
      and e: "emitted (snd ?t1) = emitted w @ [WishlistItemRemoved (wl_item_id x) l]"
      and st: "wishlist_storage (snd ?t1) =
                 snd (storage_set (Snapshot l) (wishlist_storage ?w3))"
      by blast
    have "occurrences p (wl_items l) = 0" if "occurrences p xs \<le> 1"
    proof -
      from that False have "occurrences p xs = 1" by simp
      from occurrences_filter_unique [OF this x] i show ?thesis by simp
    qed
    with r e st False show ?thesis by auto
  qed
  then obtain l where
    r: "fst ?t1 = Inr (Snapshot l, occurrences p xs = 0)"
    and o: "occurrences p xs \<le> 1 \<longrightarrow> occurrences p (wl_items l) = 1 - occurrences p xs"
    and e: "\<exists>e. emitted (snd ?t1) = emitted w @ [e] \<and>
        topic_of e = (if occurrences p xs = 0 then ''wishlist:item:added''
                      else ''wishlist:item:removed'')"
    and st: "wishlist_storage (snd ?t1) = snd (storage_set (Snapshot l) (wishlist_storage ?w3))"
    by blast
  have u: "storage_get (wishlist_storage (snd ?t1)) = Some (Snapshot l)" if "local_usable w"
    using that by (simp add: st local_usable_def)
  have loc: "sees (snd ?t1) (wl_items l)" if "remote_silent w" "local_usable w"
  proof (rule silent_sees)
    from that(1) show "remote_silent (snd ?t1)"
      by (simp add: remote_silent_def)
    from u [OF that(2)] show "stored (snd ?t1) (wl_items l)"
      by (simp add: stored_def)
  qed
  have two: "\<exists>l'. fst (wl_toggleProduct p (snd ?t1)) = Inr (Snapshot l', occurrences p xs \<noteq> 0) \<and>
        occurrences p (wl_items l') = occurrences p xs"
    if s2: "sees (snd ?t1) (wl_items l)" and le: "occurrences p xs \<le> 1"
  proof (cases "occurrences p xs = 0")
    case True
    with o le have one: "occurrences p (wl_items l) = 1" by simp
    then have "occurrences p (wl_items l) \<noteq> 0" by simp
    from toggle_present [OF s2 this] obtain x l' where
      x: "x \<in> set (wl_items l)" "product_id (wl_product x) = product_id p"
      and r': "fst (wl_toggleProduct p (snd ?t1)) = Inr (Snapshot l', False)"
      and i': "wl_items l' = filter (\<lambda>i. wl_item_id i \<noteq> wl_item_id x) (wl_items l)"
      by blast
    from occurrences_filter_unique [OF one x] i' have "occurrences p (wl_items l') = 0"
      by simp
    with r' True show ?thesis by simp
  next
    case False
    with o le have zero: "occurrences p (wl_items l) = 0" by simp
    from toggle_absent [OF s2 zero] obtain i l' where
      r': "fst (wl_toggleProduct p (snd ?t1)) = Inr (Snapshot l', True)"
      and i': "wl_items l' = wl_items l @ [i]" "wl_product i = p"
      by blast
    from i' zero have "occurrences p (wl_items l') = 1"
      by (simp add: occurrences_def)
    with r' False le show ?thesis by simp
  qed
  from u have u': "local_usable w \<longrightarrow>
        storage_get (wishlist_storage (snd ?t1)) = Some (Snapshot l)"
    by (rule impI)
  from loc have loc': "remote_silent w \<and> local_usable w \<longrightarrow> sees (snd ?t1) (wl_items l)"
    by simp
  from two have two': "sees (snd ?t1) (wl_items l) \<and> occurrences p xs \<le> 1 \<longrightarrow>
        (\<exists>l'. fst (wl_toggleProduct p (snd ?t1)) = Inr (Snapshot l', occurrences p xs \<noteq> 0) \<and>
           occurrences p (wl_items l') = occurrences p xs)"
    by simp
  show ?thesis
    by (rule exI [of _ l]) (use r o e u' loc' two' in \<open>intro conjI\<close>)
qed

theorem toggle_exclusive_witness:
  "toggle_twice lamp stocked_world = (Some (False, 0), Some (True, 1)) \<and>
   toggle_twice kettle stocked_world = (Some (True, 1), Some (False, 0)) \<and>
   toggle_twice lamp followed_world = (Some (True, 1), Some (False, 0))"
proof -
  have twice: "toggle_twice p w = (Some (a, m), Some (b, n))"
    if "fst (wl_toggleProduct p w) = Inr (Snapshot l, a)" "occurrences p (wl_items l) = m"
      "fst (wl_toggleProduct p (snd (wl_toggleProduct p w))) = Inr (Snapshot l', b)"
      "occurrences p (wl_items l') = n"
    for p :: "int product" and w l a m l' b n
    using that by (simp add: toggle_twice_def split_beta)
  have s: "sees stocked_world (wl_items wishlist_two)"
    by (rule silent_sees)
       (simp_all add: remote_silent_def userId_truthy_def stored_def storage_get_def worlds)
  have u: "remote_silent stocked_world \<and> local_usable stocked_world"
    by (simp add: remote_silent_def userId_truthy_def local_usable_def worlds)
  have o: "occurrences lamp (wl_items wishlist_two) = 1"
      "occurrences kettle (wl_items wishlist_two) = 0"
      "occurrences lamp (wl_items wishlist_remote) = 0"
    by (simp_all add: occurrences_def stock)
  have a: "toggle_twice lamp stocked_world = (Some (False, 0), Some (True, 1))"
  proof -
    from toggle_exclusive [OF s, of lamp] obtain l where
      r: "fst (wl_toggleProduct lamp stocked_world) = Inr (Snapshot l, False)"
      and n: "occurrences lamp (wl_items l) = 0"
      and loc: "remote_silent stocked_world \<and> local_usable stocked_world \<longrightarrow>
          sees (snd (wl_toggleProduct lamp stocked_world)) (wl_items l)"
      and two: "sees (snd (wl_toggleProduct lamp stocked_world)) (wl_items l) \<longrightarrow>
          (\<exists>l'. fst (wl_toggleProduct lamp (snd (wl_toggleProduct lamp stocked_world))) =
                  Inr (Snapshot l', True) \<and>
                occurrences lamp (wl_items l') = 1)"
      unfolding o by (elim exE conjE) simp
    from loc u two obtain l' where
      "fst (wl_toggleProduct lamp (snd (wl_toggleProduct lamp stocked_world))) =
         Inr (Snapshot l', True)" "occurrences lamp (wl_items l') = 1"
      by blast
    with r n show ?thesis by (rule twice)
  qed
  have b: "toggle_twice kettle stocked_world = (Some (True, 1), Some (False, 0))"
  proof -
    from toggle_exclusive [OF s, of kettle] obtain l where
      r: "fst (wl_toggleProduct kettle stocked_world) = Inr (Snapshot l, True)"
      and n: "occurrences kettle (wl_items l) = 1"
      and loc: "remote_silent stocked_world \<and> local_usable stocked_world \<longrightarrow>
          sees (snd (wl_toggleProduct kettle stocked_world)) (wl_items l)"
      and two: "sees (snd (wl_toggleProduct kettle stocked_world)) (wl_items l) \<longrightarrow>
          (\<exists>l'. fst (wl_toggleProduct kettle (snd (wl_toggleProduct kettle stocked_world))) =
                  Inr (Snapshot l', False) \<and>
                occurrences kettle (wl_items l') = 0)"
      unfolding o by (elim exE conjE) simp
    from loc u two obtain l' where
      "fst (wl_toggleProduct kettle (snd (wl_toggleProduct kettle stocked_world))) =
         Inr (Snapshot l', False)" "occurrences kettle (wl_items l') = 0"
      by blast
    with r n show ?thesis by (rule twice)
  qed
  have f: "sees followed_world (wl_items wishlist_remote)"
    by code_simp
  have f1: "fst (wl_toggleProduct lamp followed_world) = Inr (Snapshot wishlist_posted, True)"
    by code_simp
  have f2: "sees (snd (wl_toggleProduct lamp followed_world)) (wl_items wishlist_posted)"
    by code_simp
  have c: "toggle_twice lamp followed_world = (Some (True, 1), Some (False, 0))"
  proof -
    from toggle_exclusive [OF f, of lamp] obtain l where
      r: "fst (wl_toggleProduct lamp followed_world) = Inr (Snapshot l, True)"
      and n: "occurrences lamp (wl_items l) = 1"
      and two: "sees (snd (wl_toggleProduct lamp followed_world)) (wl_items l) \<longrightarrow>
          (\<exists>l'. fst (wl_toggleProduct lamp (snd (wl_toggleProduct lamp followed_world))) =
                  Inr (Snapshot l', False) \<and>
                occurrences lamp (wl_items l') = 0)"
      unfolding o by (elim exE conjE) simp
    from r f1 have "l = wishlist_posted" by simp
    with f2 two obtain l' where
      "fst (wl_toggleProduct lamp (snd (wl_toggleProduct lamp followed_world))) =
         Inr (Snapshot l', False)" "occurrences lamp (wl_items l') = 0"
      by blast
    with r n show ?thesis by (rule twice)
  qed
  from a b c show ?thesis by simp
qed

text \<open>
  C5 (as stated) fails in three situations. A signed-in shopper whose backend keeps
  answering with a record that lacks the lamp: both toggles add it. A host without local
  storage: both toggles add it. A stored wishlist that holds the lamp twice: the first
  toggle removes one entry and leaves the lamp in the wishlist, the second removes the
  other, so that two toggles do not restore the membership.
\<close>

theorem toggle_exclusive_counterexample:
  "toggle_twice lamp synced_world = (Some (True, 1), Some (True, 1)) \<and>
   toggle_twice lamp no_storage_world = (Some (True, 1), Some (True, 1)) \<and>
   occurrences lamp (wl_items wishlist_twice) = 2 \<and>
   toggle_twice lamp duplicate_world = (Some (False, 1), Some (False, 0))"
proof -
  have a: "toggle_twice lamp synced_world = (Some (True, 1), Some (True, 1))"
    by code_simp
  have b: "toggle_twice lamp no_storage_world = (Some (True, 1), Some (True, 1))"
    by code_simp
  have c: "occurrences lamp (wl_items wishlist_twice) = 2"
    by code_simp
  have d: "toggle_twice lamp duplicate_world = (Some (False, 1), Some (False, 0))"
    by code_simp
  from a b c d show ?thesis by simp
qed

lemma found_get:
  assumes "userId_truthy w" and "remote_get w (remote_gets w) = Found r"
  shows "fst (wl_get w) = r"
    and "wishlist_storage (snd (wl_get w)) = snd (storage_set r (wishlist_storage w))"
    and "userId_truthy (snd (wl_get w))"
    and "remote_get (snd (wl_get w)) (remote_gets (snd (wl_get w))) =
           remote_get w (Suc (remote_gets w))"
  using assms by (simp_all add: wl_get_result wl_get_storage)

text \<open>
  C6 (as amended). The cart's mutations and the wishlist's \<^verbatim>\<open>clear\<close> never read the
  backend: what they return and the world they leave do not depend on its answers, and
  they issue no remote read. The wishlist's \<^verbatim>\<open>addItem\<close>, \<^verbatim>\<open>removeItem\<close> and
  \<^verbatim>\<open>toggleProduct\<close> read the collection through \<^verbatim>\<open>get()\<close>, which reads the
  backend first. Without an owner identity they too are independent of the backend and
  issue no remote read and no remote write. With an owner identity other than \<open>0\<close>,
  \<^verbatim>\<open>removeItem\<close> issues one remote read, \<^verbatim>\<open>addItem\<close> two (its own and that of
  its \<^verbatim>\<open>hasProduct\<close> check) and \<^verbatim>\<open>toggleProduct\<close> between one and three, and
  a read that finds a record writes it over the local store at once, before the call
  goes on. \<^verbatim>\<open>removeItem\<close> then filters the record that its read found.
  \<^verbatim>\<open>addItem\<close> returns the record of its first read as it is when the record of its
  second read holds the product: the local store is then left with the second record,
  and nothing is published or posted. Otherwise it extends the record of its first read
  by the new entry. What a call writes to the local store at its end is written over the
  records that its reads wrote there.
\<close>

theorem mutations_and_remote_state:
  "cart_addItem p q (w\<lparr>remote_get := g\<rparr>) =
     (fst (cart_addItem p q w), (snd (cart_addItem p q w))\<lparr>remote_get := g\<rparr>) \<and>
   cart_removeItem i (w\<lparr>remote_get := g\<rparr>) =
     (fst (cart_removeItem i w), (snd (cart_removeItem i w))\<lparr>remote_get := g\<rparr>) \<and>
   cart_updateItemQuantity i q (w\<lparr>remote_get := g\<rparr>) =
     (fst (cart_updateItemQuantity i q w), (snd (cart_updateItemQuantity i q w))\<lparr>remote_get := g\<rparr>) \<and>
   cart_clear (w\<lparr>remote_get := g\<rparr>) = (fst (cart_clear w), (snd (cart_clear w))\<lparr>remote_get := g\<rparr>) \<and>
   wl_clear (w\<lparr>remote_get := g\<rparr>) = (fst (wl_clear w), (snd (wl_clear w))\<lparr>remote_get := g\<rparr>) \<and>
   remote_gets (snd (cart_addItem p q w)) = remote_gets w \<and>
   remote_gets (snd (cart_removeItem i w)) = remote_gets w \<and>
   remote_gets (snd (cart_updateItemQuantity i q w)) = remote_gets w \<and>
   remote_gets (snd (cart_clear w)) = remote_gets w \<and>
   remote_gets (snd (wl_clear w)) = remote_gets w \<and>
   (userId w = None \<longrightarrow>
      wl_addItem p (w\<lparr>remote_get := g\<rparr>) =
        (fst (wl_addItem p w), (snd (wl_addItem p w))\<lparr>remote_get := g\<rparr>) \<and>
      wl_removeItem j (w\<lparr>remote_get := g\<rparr>) =
        (fst (wl_removeItem j w), (snd (wl_removeItem j w))\<lparr>remote_get := g\<rparr>) \<and>
      wl_toggleProduct p (w\<lparr>remote_get := g\<rparr>) =
        (fst (wl_toggleProduct p w), (snd (wl_toggleProduct p w))\<lparr>remote_get := g\<rparr>) \<and>
      remote_gets (snd (wl_addItem p w)) = remote_gets w \<and>
      remote_gets (snd (wl_removeItem j w)) = remote_gets w \<and>
      remote_gets (snd (wl_toggleProduct p w)) = remote_gets w \<and>
      remote_posts (snd (wl_addItem p w)) = remote_posts w \<and>
      remote_posts (snd (wl_removeItem j w)) = remote_posts w \<and>
      remote_posts (snd (wl_toggleProduct p w)) = remote_posts w) \<and>
   (userId_truthy w \<longrightarrow>
      remote_gets (snd (wl_addItem p w)) = Suc (Suc (remote_gets w)) \<and>
      remote_gets (snd (wl_removeItem j w)) = Suc (remote_gets w) \<and>
      Suc (remote_gets w) \<le> remote_gets (snd (wl_toggleProduct p w)) \<and>
      remote_gets (snd (wl_toggleProduct p w)) \<le> Suc (Suc (Suc (remote_gets w)))) \<and>
   (userId_truthy w \<and> remote_get w (remote_gets w) = Found (Snapshot la) \<longrightarrow>
      (\<exists>l. fst (wl_removeItem j w) = Inr (Snapshot l) \<and>
         wl_items l = filter (\<lambda>x. wl_item_id x \<noteq> j) (wl_items la) \<and>
         wishlist_storage (snd (wl_removeItem j w)) =
           snd (storage_set (Snapshot l)
                  (snd (storage_set (Snapshot la) (wishlist_storage w)))))) \<and>
   (userId_truthy w \<and> remote_get w (remote_gets w) = Found r \<and>
    remote_get w (Suc (remote_gets w)) = Found (Snapshot lb) \<and>
    has_product (product_id p) lb \<longrightarrow>
      fst (wl_addItem p w) = Inr r \<and>
      wishlist_storage (snd (wl_addItem p w)) =
        snd (storage_set (Snapshot lb) (snd (storage_set r (wishlist_storage w)))) \<and>
      emitted (snd (wl_addItem p w)) = emitted w \<and>
      remote_posts (snd (wl_addItem p w)) = remote_posts w) \<and>
   (userId_truthy w \<and> remote_get w (remote_gets w) = Found (Snapshot la) \<and>
    remote_get w (Suc (remote_gets w)) = Found (Snapshot lb) \<and>
    \<not> has_product (product_id p) lb \<longrightarrow>
      (\<exists>x l. fst (wl_addItem p w) = Inr (Snapshot l) \<and>
         wl_items l = wl_items la @ [x] \<and> wl_product x = p \<and>
         wishlist_storage (snd (wl_addItem p w)) =
           snd (storage_set (Snapshot l)
                  (snd (storage_set (Snapshot lb)
                         (snd (storage_set (Snapshot la) (wishlist_storage w))))))))"
proof -
  let ?w1 = "snd (wl_get w)"
  have local: "userId w = None \<longrightarrow>
      wl_addItem p (w\<lparr>remote_get := g\<rparr>) =
        (fst (wl_addItem p w), (snd (wl_addItem p w))\<lparr>remote_get := g\<rparr>) \<and>
      wl_removeItem j (w\<lparr>remote_get := g\<rparr>) =
        (fst (wl_removeItem j w), (snd (wl_removeItem j w))\<lparr>remote_get := g\<rparr>) \<and>
      wl_toggleProduct p (w\<lparr>remote_get := g\<rparr>) =
        (fst (wl_toggleProduct p w), (snd (wl_toggleProduct p w))\<lparr>remote_get := g\<rparr>) \<and>
      remote_gets (snd (wl_addItem p w)) = remote_gets w \<and>
      remote_gets (snd (wl_removeItem j w)) = remote_gets w \<and>
      remote_gets (snd (wl_toggleProduct p w)) = remote_gets w \<and>
      remote_posts (snd (wl_addItem p w)) = remote_posts w \<and>
      remote_posts (snd (wl_removeItem j w)) = remote_posts w \<and>
      remote_posts (snd (wl_toggleProduct p w)) = remote_posts w"
  proof
    assume "userId w = None"
    then have n: "\<not> userId_truthy w" by (rule no_owner_falsy)
    from n show "wl_addItem p (w\<lparr>remote_get := g\<rparr>) =
        (fst (wl_addItem p w), (snd (wl_addItem p w))\<lparr>remote_get := g\<rparr>) \<and>
      wl_removeItem j (w\<lparr>remote_get := g\<rparr>) =
        (fst (wl_removeItem j w), (snd (wl_removeItem j w))\<lparr>remote_get := g\<rparr>) \<and>
      wl_toggleProduct p (w\<lparr>remote_get := g\<rparr>) =
        (fst (wl_toggleProduct p w), (snd (wl_toggleProduct p w))\<lparr>remote_get := g\<rparr>) \<and>
      remote_gets (snd (wl_addItem p w)) = remote_gets w \<and>
      remote_gets (snd (wl_removeItem j w)) = remote_gets w \<and>
      remote_gets (snd (wl_toggleProduct p w)) = remote_gets w \<and>
      remote_posts (snd (wl_addItem p w)) = remote_posts w \<and>
      remote_posts (snd (wl_removeItem j w)) = remote_posts w \<and>
      remote_posts (snd (wl_toggleProduct p w)) = remote_posts w"
      by (simp add: wl_addItem_remote wl_removeItem_remote wl_toggleProduct_remote
          local_only_posts wl_toggleProduct_gets)
  qed
  have gets: "userId_truthy w \<longrightarrow>
      remote_gets (snd (wl_addItem p w)) = Suc (Suc (remote_gets w)) \<and>
      remote_gets (snd (wl_removeItem j w)) = Suc (remote_gets w) \<and>
      Suc (remote_gets w) \<le> remote_gets (snd (wl_toggleProduct p w)) \<and>
      remote_gets (snd (wl_toggleProduct p w)) \<le> Suc (Suc (Suc (remote_gets w)))"
    by (simp add: wl_toggleProduct_gets split: payload.splits)
  have rem: "\<exists>l. fst (wl_removeItem j w) = Inr (Snapshot l) \<and>
         wl_items l = filter (\<lambda>x. wl_item_id x \<noteq> j) (wl_items la) \<and>
         wishlist_storage (snd (wl_removeItem j w)) =
           snd (storage_set (Snapshot l)
                  (snd (storage_set (Snapshot la) (wishlist_storage w))))"
    if t: "userId_truthy w" and f: "remote_get w (remote_gets w) = Found (Snapshot la)"
  proof -
    note a = found_get [OF t f]
    from wl_removeItem_removes [OF a(1), of j] a(2) show ?thesis by auto
  qed
  have keep: "fst (wl_addItem p w) = Inr r \<and>
      wishlist_storage (snd (wl_addItem p w)) =
        snd (storage_set (Snapshot lb) (snd (storage_set r (wishlist_storage w)))) \<and>
      emitted (snd (wl_addItem p w)) = emitted w \<and>
      remote_posts (snd (wl_addItem p w)) = remote_posts w"
    if t: "userId_truthy w" and f: "remote_get w (remote_gets w) = Found r"
      and f2: "remote_get w (Suc (remote_gets w)) = Found (Snapshot lb)"
      and h: "has_product (product_id p) lb"
  proof -
    note a = found_get [OF t f]
    from a(4) f2 have "remote_get ?w1 (remote_gets ?w1) = Found (Snapshot lb)" by simp
    note b = found_get [OF a(3) this]
    from wl_addItem_keeps [OF b(1) h] a(1,2) b(2) show ?thesis by simp
  qed
  have add: "\<exists>x l. fst (wl_addItem p w) = Inr (Snapshot l) \<and>
         wl_items l = wl_items la @ [x] \<and> wl_product x = p \<and>
         wishlist_storage (snd (wl_addItem p w)) =
           snd (storage_set (Snapshot l)
                  (snd (storage_set (Snapshot lb)
                         (snd (storage_set (Snapshot la) (wishlist_storage w))))))"
    if t: "userId_truthy w" and f: "remote_get w (remote_gets w) = Found (Snapshot la)"
      and f2: "remote_get w (Suc (remote_gets w)) = Found (Snapshot lb)"
      and h: "\<not> has_product (product_id p) lb"
  proof -
    note a = found_get [OF t f]
    from a(4) f2 have "remote_get ?w1 (remote_gets ?w1) = Found (Snapshot lb)" by simp
    note b = found_get [OF a(3) this]
    from wl_addItem_adds [OF a(1) b(1) h] a(2) b(2) show ?thesis by auto
  qed
  have cart: "cart_addItem p q (w\<lparr>remote_get := g\<rparr>) =
     (fst (cart_addItem p q w), (snd (cart_addItem p q w))\<lparr>remote_get := g\<rparr>) \<and>
   cart_removeItem i (w\<lparr>remote_get := g\<rparr>) =
     (fst (cart_removeItem i w), (snd (cart_removeItem i w))\<lparr>remote_get := g\<rparr>) \<and>
   cart_updateItemQuantity i q (w\<lparr>remote_get := g\<rparr>) =
     (fst (cart_updateItemQuantity i q w), (snd (cart_updateItemQuantity i q w))\<lparr>remote_get := g\<rparr>) \<and>
   cart_clear (w\<lparr>remote_get := g\<rparr>) = (fst (cart_clear w), (snd (cart_clear w))\<lparr>remote_get := g\<rparr>) \<and>
   wl_clear (w\<lparr>remote_get := g\<rparr>) = (fst (wl_clear w), (snd (wl_clear w))\<lparr>remote_get := g\<rparr>) \<and>
   remote_gets (snd (cart_addItem p q w)) = remote_gets w \<and>
   remote_gets (snd (cart_removeItem i w)) = remote_gets w \<and>
   remote_gets (snd (cart_updateItemQuantity i q w)) = remote_gets w \<and>
   remote_gets (snd (cart_clear w)) = remote_gets w \<and>
   remote_gets (snd (wl_clear w)) = remote_gets w"
    by simp
  from rem have rem': "userId_truthy w \<and> remote_get w (remote_gets w) = Found (Snapshot la) \<longrightarrow>
      (\<exists>l. fst (wl_removeItem j w) = Inr (Snapshot l) \<and>
         wl_items l = filter (\<lambda>x. wl_item_id x \<noteq> j) (wl_items la) \<and>
         wishlist_storage (snd (wl_removeItem j w)) =
           snd (storage_set (Snapshot l)
                  (snd (storage_set (Snapshot la) (wishlist_storage w)))))"
    by simp
  from keep have keep': "userId_truthy w \<and> remote_get w (remote_gets w) = Found r \<and>
    remote_get w (Suc (remote_gets w)) = Found (Snapshot lb) \<and>
    has_product (product_id p) lb \<longrightarrow>
      fst (wl_addItem p w) = Inr r \<and>
      wishlist_storage (snd (wl_addItem p w)) =
        snd (storage_set (Snapshot lb) (snd (storage_set r (wishlist_storage w)))) \<and>
      emitted (snd (wl_addItem p w)) = emitted w \<and>
      remote_posts (snd (wl_addItem p w)) = remote_posts w"
    by simp
  from add have add': "userId_truthy w \<and> remote_get w (remote_gets w) = Found (Snapshot la) \<and>
    remote_get w (Suc (remote_gets w)) = Found (Snapshot lb) \<and>
    \<not> has_product (product_id p) lb \<longrightarrow>
      (\<exists>x l. fst (wl_addItem p w) = Inr (Snapshot l) \<and>
         wl_items l = wl_items la @ [x] \<and> wl_product x = p \<and>
         wishlist_storage (snd (wl_addItem p w)) =
           snd (storage_set (Snapshot l)
                  (snd (storage_set (Snapshot lb)
                         (snd (storage_set (Snapshot la) (wishlist_storage w)))))))"
    by simp
  show ?thesis
    using cart local gets rem' keep' add' by (intro conjI) (elim conjE, assumption)+
qed

theorem mutations_and_remote_state_witness:
  "wl_addItem lamp (stocked_world\<lparr>remote_get := answering\<rparr>) =
     (fst (wl_addItem lamp stocked_world),
      (snd (wl_addItem lamp stocked_world))\<lparr>remote_get := answering\<rparr>) \<and>
   remote_gets (snd (wl_toggleProduct lamp stocked_world)) = 0 \<and>
   remote_posts (snd (wl_toggleProduct lamp stocked_world)) = [] \<and>
   remote_gets (snd (wl_removeItem ''wish_c'' synced_world)) = 1 \<and>
   fst (wl_addItem mug synced_world) = Inr (Snapshot wishlist_remote) \<and>
   storage_get (wishlist_storage synced_world) = Some (Snapshot wishlist_two) \<and>
   storage_get (wishlist_storage (snd (wl_addItem mug synced_world))) =
     Some (Snapshot wishlist_remote) \<and>
   emitted (snd (wl_addItem mug synced_world)) = [] \<and>
   fst (wishlist_view (wl_removeItem ''wish_c'' synced_world)) = Some ([], []) \<and>
   map_option snd (fst (wishlist_view (wl_addItem lamp synced_world))) = Some [mug, lamp]"
proof -
  have a: "userId stocked_world = None"
    by (simp add: worlds)
  have z: "remote_gets stocked_world = 0" "remote_posts stocked_world = []"
      "remote_gets synced_world = 0" "emitted synced_world = []"
    by (simp_all add: worlds)
  have b: "userId_truthy synced_world \<and>
      remote_get synced_world (remote_gets synced_world) = Found (Snapshot wishlist_remote) \<and>
      remote_get synced_world (Suc (remote_gets synced_world)) = Found (Snapshot wishlist_remote)"
    by (simp add: userId_truthy_def worlds)
  have h: "has_product (product_id mug) wishlist_remote"
    by (simp add: has_product_def stock)
  have s: "storage_get (wishlist_storage synced_world) = Some (Snapshot wishlist_two)"
      "available (wishlist_storage synced_world)" "writable (wishlist_storage synced_world)"
    by (simp_all add: storage_get_def worlds)
  from mutations_and_remote_state
         [where p = lamp and w = stocked_world and g = answering] a z
  have x: "wl_addItem lamp (stocked_world\<lparr>remote_get := answering\<rparr>) =
     (fst (wl_addItem lamp stocked_world),
      (snd (wl_addItem lamp stocked_world))\<lparr>remote_get := answering\<rparr>) \<and>
   remote_gets (snd (wl_toggleProduct lamp stocked_world)) = 0 \<and>
   remote_posts (snd (wl_toggleProduct lamp stocked_world)) = []"
    by simp
  from mutations_and_remote_state
         [where w = synced_world and j = "''wish_c''" and p = mug
            and r = "Snapshot wishlist_remote" and lb = wishlist_remote] b h z
  have y: "remote_gets (snd (wl_removeItem ''wish_c'' synced_world)) = 1 \<and>
      fst (wl_addItem mug synced_world) = Inr (Snapshot wishlist_remote) \<and>
      wishlist_storage (snd (wl_addItem mug synced_world)) =
        snd (storage_set (Snapshot wishlist_remote)
               (snd (storage_set (Snapshot wishlist_remote) (wishlist_storage synced_world)))) \<and>
      emitted (snd (wl_addItem mug synced_world)) = []"
    by simp
  with s have "storage_get (wishlist_storage (snd (wl_addItem mug synced_world))) =
     Some (Snapshot wishlist_remote)"
    by simp
  note v = this
  have nl: "\<not> has_product (product_id lamp) wishlist_remote"
    by (simp add: has_product_def stock)
  from mutations_and_remote_state
         [where w = synced_world and j = "''wish_c''" and p = lamp
            and la = wishlist_remote and lb = wishlist_remote] b nl
  have "(\<exists>l. fst (wl_removeItem ''wish_c'' synced_world) = Inr (Snapshot l) \<and>
           wl_items l = filter (\<lambda>x. wl_item_id x \<noteq> ''wish_c'') (wl_items wishlist_remote)) \<and>
        (\<exists>x l. fst (wl_addItem lamp synced_world) = Inr (Snapshot l) \<and>
           wl_items l = wl_items wishlist_remote @ [x] \<and> wl_product x = lamp)"
    by blast
  then have u: "fst (wishlist_view (wl_removeItem ''wish_c'' synced_world)) = Some ([], []) \<and>
      map_option snd (fst (wishlist_view (wl_addItem lamp synced_world))) = Some [mug, lamp]"
    by (auto simp: wishlist_view_def wishlist_remote_def)
  from x y s v u show ?thesis by simp
qed

text \<open>
  C6 (as stated) fails on the wishlist. Two worlds that differ in nothing but the backend's
  answers: the shopper adds the lamp, which the local wishlist already holds. Offline, the
  call returns the local wishlist unchanged. With a reachable backend whose record holds
  only the mug, the call issues two remote reads, returns the backend's record with the
  lamp added, and writes that to the local store: the local entries are gone. And adding
  the mug, which the backend's record holds, changes nothing in the collection and still
  leaves the backend's record in the local store.
\<close>

theorem mutations_and_remote_state_counterexample:
  "synced_world = offline_world\<lparr>remote_get := answering\<rparr> \<and>
   item (wishlist_storage synced_world) = Some (Snapshot wishlist_two) \<and>
   remote_gets synced_world = 0 \<and>
   wishlist_view (wl_addItem lamp offline_world) =
     (Some ([''wish_a'', ''wish_b''], [lamp, mug]), 2, Some [''wish_a'', ''wish_b''], []) \<and>
   wishlist_view (wl_addItem lamp synced_world) =
     (Some ([''wish_c'', ''wishlist_10_k0''], [mug, lamp]), 2,
      Some [''wish_c'', ''wishlist_10_k0''], [''wishlist:item:added'']) \<and>
   wishlist_view (wl_addItem mug synced_world) =
     (Some ([''wish_c''], [mug]), 2, Some [''wish_c''], [])"
proof -
  have w: "synced_world = offline_world\<lparr>remote_get := answering\<rparr> \<and>
      item (wishlist_storage synced_world) = Some (Snapshot wishlist_two) \<and>
      remote_gets synced_world = 0"
    by (simp add: worlds)
  have a: "wishlist_view (wl_addItem lamp offline_world) =
     (Some ([''wish_a'', ''wish_b''], [lamp, mug]), 2, Some [''wish_a'', ''wish_b''], [])"
    by code_simp
  have b: "wishlist_view (wl_addItem lamp synced_world) =
     (Some ([''wish_c'', ''wishlist_10_k0''], [mug, lamp]), 2,
      Some [''wish_c'', ''wishlist_10_k0''], [''wishlist:item:added''])"
    by code_simp
  have c: "wishlist_view (wl_addItem mug synced_world) =
     (Some ([''wish_c''], [mug]), 2, Some [''wish_c''], [])"
    by code_simp
  from w a b c show ?thesis by simp
qed

text \<open>
  C7. \<^verbatim>\<open>updateItemQuantity(itemId, q)\<close> with \<open>q \<le> 0\<close> is \<^verbatim>\<open>removeItem(itemId)\<close>:
  the same returned collection and the same resulting world, that is the same local
  store and the same published events.
\<close>

theorem quantity_zero_is_remove:
  "q \<le> 0 \<Longrightarrow> cart_updateItemQuantity itemId q w = cart_removeItem itemId w"
  by (simp add: cart_updateItemQuantity_def)

theorem quantity_zero_is_remove_witness:
  "cart_updateItemQuantity ''item_a'' 0 stocked_world = cart_removeItem ''item_a'' stocked_world \<and>
   total_items (fst (cart_updateItemQuantity ''item_a'' 0 stocked_world)) = 1 \<and>
   subtotal (fst (cart_updateItemQuantity ''item_a'' 0 stocked_world)) = 5 \<and>
   emitted (snd (cart_updateItemQuantity ''item_a'' 0 stocked_world)) =
     [CartItemRemoved ''item_a'' (fst (cart_removeItem ''item_a'' stocked_world))]"
proof -
  have e: "cart_updateItemQuantity ''item_a'' 0 stocked_world =
      cart_removeItem ''item_a'' stocked_world"
    using quantity_zero_is_remove [of 0 "''item_a''" stocked_world] by simp
  have g: "fst (cart_get stocked_world) = cart_two"
    by (simp add: cart_get_result storage_get_def worlds)
  have h: "list_ex (\<lambda>i. item_id i = ''item_a'') (items (fst (cart_get stocked_world)))"
    by (simp add: g cart_two_def)
  from cart_removeItem_present [OF h]
  have t: "total_items (fst (cart_removeItem ''item_a'' stocked_world)) = 1"
          "subtotal (fst (cart_removeItem ''item_a'' stocked_world)) = 5"
    by (simp_all add: cart_pure_def entry_sum_def g stock)
  have m: "emitted (snd (cart_removeItem ''item_a'' stocked_world)) =
     [CartItemRemoved ''item_a'' (fst (cart_removeItem ''item_a'' stocked_world))]"
    by (simp add: g cart_two_def) (simp add: worlds)
  from e t m show ?thesis by simp
qed



end
